theory Spec2Isabelle
  imports Complex_Main "HOL-Library.AList"
begin

section \<open>Data model\<close>

text \<open>
  The exceptions the modelled code raises. \<open>FloatConversionError\<close> is what \<open>int()\<close>
  raises on a float that is not finite (\<open>ValueError\<close> for NaN, \<open>OverflowError\<close> for an
  infinity); \<open>LibraryError\<close> stands for an exception raised inside one of the numerical
  libraries (statsmodels, scikit-learn).
\<close>

datatype error =
    IndexError
  | KeyError
  | ValueError string
  | TypeError
  | ZeroDivisionError
  | AttributeError
  | FloatConversionError
  | LibraryError string

text \<open>
  A metric value (\<open>mae\<close>, \<open>mape\<close>): a finite number or \<open>float('inf')\<close>.
  \<open>score_less\<close> is Python's \<open><\<close> on such values.
\<close>

datatype score = Num real | Infinity

fun score_less :: "score \<Rightarrow> score \<Rightarrow> bool" where
  "score_less (Num a) (Num b) = (a < b)"
| "score_less (Num a) Infinity = True"
| "score_less Infinity b = False"

text \<open>
  One observation of a series is a float, taken as a real number; \<open>None\<close> is NaN
  (a missing value). A \<open>pd.Series\<close> with a \<open>DatetimeIndex\<close> is the list of its
  (timestamp, value) rows in order; a timestamp counts nanoseconds, as pandas stores it,
  and \<open>day\<close> is \<open>pd.Timedelta(days=1)\<close>. Timestamps are unbounded integers here: the
  64-bit range of a pandas \<open>Timestamp\<close> (which ends in the year 2262) is not modelled, so
  the results below speak of forecasts whose dates pandas can represent.
\<close>

type_synonym val = "real option"
type_synonym timestamp = int
type_synonym series = "(timestamp \<times> val) list"

definition day :: int where
  "day = 86400000000000"

text \<open>A float argument such as \<open>train_size\<close>: finite, or NaN / an infinity.\<close>

datatype pyfloat = Finite real | NonFinite

text \<open>A hyperparameter value: an integer, a string or \<open>None\<close>.\<close>

datatype pval = PInt int | PStr string | PNone

type_synonym params = "(string \<times> pval) list"

section \<open>Python and pandas primitives\<close>

text \<open>
  The position a slice bound \<open>i\<close> denotes in a sequence of length \<open>n\<close>: a negative
  bound counts from the end, and bounds outside the sequence are clipped.
\<close>

definition slice_bound :: "int \<Rightarrow> nat \<Rightarrow> nat" where
  "slice_bound i n = (if i < 0 then nat (int n + i) else min (nat i) n)"

text \<open>\<open>xs.iloc[i:]\<close>, \<open>xs.iloc[:i]\<close> and \<open>xs.iloc[i]\<close>.\<close>

definition iloc_from :: "int \<Rightarrow> 'a list \<Rightarrow> 'a list" where
  "iloc_from i xs = drop (slice_bound i (length xs)) xs"

definition iloc_to :: "int \<Rightarrow> 'a list \<Rightarrow> 'a list" where
  "iloc_to i xs = take (slice_bound i (length xs)) xs"

definition iloc_at :: "'a list \<Rightarrow> int \<Rightarrow> error + 'a" where
  "iloc_at xs i =
     (if 0 \<le> i \<and> i < int (length xs) then Inr (xs ! nat i)
      else if i < 0 \<and> - int (length xs) \<le> i then Inr (xs ! nat (int (length xs) + i))
      else Inl IndexError)"

text \<open>\<open>data.index[-1]\<close>\<close>

definition index_last :: "series \<Rightarrow> error + timestamp" where
  "index_last d = (case d of [] \<Rightarrow> Inl IndexError | x # xs \<Rightarrow> Inr (fst (last d)))"

text \<open>\<open>pd.date_range(start=start, periods=periods, freq='D')\<close>\<close>

definition date_range :: "timestamp \<Rightarrow> nat \<Rightarrow> timestamp list" where
  "date_range start periods = map (\<lambda>i. start + day * int i) [0..<periods]"

text \<open>\<open>pd.Series(values, index=index)\<close>: the lengths must agree.\<close>

definition Series :: "val list \<Rightarrow> timestamp list \<Rightarrow> error + series" where
  "Series vs index =
     (if length vs \<noteq> length index
      then Inl (ValueError ''Length of values does not match length of index'')
      else Inr (zip index vs))"

text \<open>\<open>np.mean\<close>: NaN on an empty array and when a value is NaN.\<close>

definition np_mean :: "val list \<Rightarrow> val" where
  "np_mean vs =
     (if vs = [] \<or> None \<in> set vs then None
      else Some (sum_list (map the vs) / real (length vs)))"

text \<open>\<open>a + b\<close> on floats, \<open>b\<close> a number.\<close>

definition val_add :: "val \<Rightarrow> real \<Rightarrow> val" where
  "val_add a b = (case a of None \<Rightarrow> None | Some x \<Rightarrow> Some (x + b))"

text \<open>\<open>int(x)\<close> on a finite float truncates towards zero.\<close>

definition py_int :: "real \<Rightarrow> int" where
  "py_int x = (if 0 \<le> x then \<lfloor>x\<rfloor> else \<lceil>x\<rceil>)"

section \<open>The numerical libraries\<close>

text \<open>
  The regression and smoothing routines are not part of the repository; they are
  parameters of the model.
  \<^item> \<open>LinearRegression_fit y\<close> is \<open>LinearRegression().fit(X, y)\<close> with
    \<open>X = np.arange(len(y)).reshape(-1, 1)\<close>: it raises, or gives the fitted estimator as
    its slope \<open>coef_[0]\<close> and its \<open>predict\<close> method on a list of time indices.
  \<^item> \<open>ExponentialSmoothing_fit data trend seasonal seasonal_periods\<close> is
    \<open>ExponentialSmoothing(data, trend=..., seasonal=..., seasonal_periods=...).fit()\<close>:
    it raises, or gives the fitted results object as its \<open>forecast\<close> method.
\<close>

type_synonym lr_estimator = "real \<times> (int list \<Rightarrow> error + val list)"
type_synonym es_results = "nat \<Rightarrow> error + series"

record library =
  LinearRegression_fit :: "val list \<Rightarrow> error + lr_estimator"
  ExponentialSmoothing_fit :: "series \<Rightarrow> pval \<Rightarrow> pval \<Rightarrow> pval \<Rightarrow> error + es_results"

section \<open>Forecasting models\<close>

text \<open>
  The five model classes with their constructor arguments, and the attributes of an
  instance. An attribute that has not been assigned yet is \<open>None\<close>.
\<close>

datatype kind =
    MovingAverageModel pval
  | ExponentialSmoothingModel pval pval pval
  | NaiveModel
  | SeasonalNaiveModel pval
  | LinearRegressionModel

record forecasting_model =
  kind :: kind
  fitted :: bool
  data :: "series option"
  trend_slope :: "real option"
  last_value :: "val option"
  fitted_model :: "es_results option"
  lr_model :: "lr_estimator option"

fun name :: "kind \<Rightarrow> string" where
  "name (MovingAverageModel window) = ''Moving Average''"
| "name (ExponentialSmoothingModel trend seasonal seasonal_periods) = ''Exponential Smoothing''"
| "name NaiveModel = ''Naive''"
| "name (SeasonalNaiveModel seasonal_period) = ''Seasonal Naive''"
| "name LinearRegressionModel = ''Linear Regression''"

text \<open>\<open>__init__\<close>\<close>

definition new_model :: "kind \<Rightarrow> forecasting_model" where
  "new_model k = \<lparr>kind = k, fitted = False, data = None, trend_slope = None,
                   last_value = None, fitted_model = None, lr_model = None\<rparr>"

subsection \<open>fit\<close>

text \<open>
  A \<open>fit\<close> gives the instance as the call leaves it, and the exception if it raised.
\<close>

definition MovingAverageModel_fit ::
  "library \<Rightarrow> forecasting_model \<Rightarrow> series \<Rightarrow> forecasting_model \<times> error option" where
  "MovingAverageModel_fit lib self d =
     (let self1 = self\<lparr>data := Some d, fitted := True\<rparr>;
          recent_data = iloc_from (- min 30 (int (length d))) d
      in if length recent_data > 1
         then (case LinearRegression_fit lib (map snd recent_data) of
                 Inl e \<Rightarrow> (self1, Some e)
               | Inr lr \<Rightarrow> (self1\<lparr>trend_slope := Some (fst lr)\<rparr>, None))
         else (self1\<lparr>trend_slope := Some 0\<rparr>, None))"

text \<open>
  The third component is the log: the messages given to \<open>logger.error\<close>.
\<close>

definition ExponentialSmoothingModel_fit ::
  "library \<Rightarrow> forecasting_model \<Rightarrow> pval \<Rightarrow> pval \<Rightarrow> pval \<Rightarrow> series
     \<Rightarrow> forecasting_model \<times> error option \<times> string list" where
  "ExponentialSmoothingModel_fit lib self trend seasonal seasonal_periods d =
     (case ExponentialSmoothing_fit lib d trend seasonal seasonal_periods of
        Inr fm \<Rightarrow> (self\<lparr>fitted_model := Some fm, fitted := True\<rparr>, None, [])
      | Inl e \<Rightarrow>
          (case ExponentialSmoothing_fit lib d PNone PNone PNone of
             Inr fm \<Rightarrow> (self\<lparr>fitted_model := Some fm, fitted := True\<rparr>, None,
                         [''Failed to fit Exponential Smoothing model''])
           | Inl e' \<Rightarrow> (self, Some e', [''Failed to fit Exponential Smoothing model''])))"

definition NaiveModel_fit :: "forecasting_model \<Rightarrow> series \<Rightarrow> forecasting_model \<times> error option" where
  "NaiveModel_fit self d =
     (case iloc_at d (- 1) of
        Inl e \<Rightarrow> (self, Some e)
      | Inr row \<Rightarrow> (self\<lparr>last_value := Some (snd row), data := Some d, fitted := True\<rparr>, None))"

definition SeasonalNaiveModel_fit :: "forecasting_model \<Rightarrow> series \<Rightarrow> forecasting_model \<times> error option" where
  "SeasonalNaiveModel_fit self d = (self\<lparr>data := Some d, fitted := True\<rparr>, None)"

definition LinearRegressionModel_fit ::
  "library \<Rightarrow> forecasting_model \<Rightarrow> series \<Rightarrow> forecasting_model \<times> error option" where
  "LinearRegressionModel_fit lib self d =
     (let self1 = self\<lparr>data := Some d\<rparr>
      in case LinearRegression_fit lib (map snd d) of
           Inl e \<Rightarrow> (self1, Some e)
         | Inr lr \<Rightarrow> (self1\<lparr>lr_model := Some lr, fitted := True\<rparr>, None))"

text \<open>Dynamic dispatch of \<open>model.fit(data)\<close> on the class of the instance.\<close>

definition fit :: "library \<Rightarrow> forecasting_model \<Rightarrow> series \<Rightarrow> forecasting_model \<times> error option" where
  "fit lib self d =
     (case kind self of
        MovingAverageModel window \<Rightarrow> MovingAverageModel_fit lib self d
      | ExponentialSmoothingModel trend seasonal seasonal_periods \<Rightarrow>
          (let r = ExponentialSmoothingModel_fit lib self trend seasonal seasonal_periods d
           in (fst r, fst (snd r)))
      | NaiveModel \<Rightarrow> NaiveModel_fit self d
      | SeasonalNaiveModel seasonal_period \<Rightarrow> SeasonalNaiveModel_fit self d
      | LinearRegressionModel \<Rightarrow> LinearRegressionModel_fit lib self d)"

subsection \<open>predict\<close>

definition not_fitted :: error where
  "not_fitted = ValueError ''Model must be fitted before prediction''"

text \<open>
  The comprehension \<open>[avg_value + (i + 1) * self.trend_slope for i in range(steps)]\<close>:
  the attribute is read once per step, so a missing \<open>trend_slope\<close> raises only when there
  is a step.
\<close>

fun forecast_values_loop :: "val \<Rightarrow> real option \<Rightarrow> nat list \<Rightarrow> error + val list" where
  "forecast_values_loop avg_value slope [] = Inr []"
| "forecast_values_loop avg_value slope (i # rest) =
     (case slope of
        None \<Rightarrow> Inl AttributeError
      | Some sl \<Rightarrow>
          (case forecast_values_loop avg_value slope rest of
             Inl e \<Rightarrow> Inl e
           | Inr vs \<Rightarrow> Inr (val_add avg_value ((real i + 1) * sl) # vs)))"

definition MovingAverageModel_predict :: "forecasting_model \<Rightarrow> pval \<Rightarrow> nat \<Rightarrow> error + series" where
  "MovingAverageModel_predict self window steps =
     (if \<not> fitted self then Inl not_fitted
      else case data self of
        None \<Rightarrow> Inl AttributeError
      | Some d \<Rightarrow>
          (case window of
             PInt w \<Rightarrow>
               (let last_values = map snd (iloc_from (- w) d);
                    avg_value = np_mean last_values
                in case forecast_values_loop avg_value (trend_slope self) [0..<steps] of
                     Inl e \<Rightarrow> Inl e
                   | Inr forecast_values \<Rightarrow>
                       (case index_last d of
                          Inl e \<Rightarrow> Inl e
                        | Inr last_date \<Rightarrow>
                            Series forecast_values (date_range (last_date + day) steps)))
           | PStr s \<Rightarrow> Inl TypeError
           | PNone \<Rightarrow> Inl TypeError))"

definition ExponentialSmoothingModel_predict :: "forecasting_model \<Rightarrow> nat \<Rightarrow> error + series" where
  "ExponentialSmoothingModel_predict self steps =
     (if \<not> fitted self then Inl not_fitted
      else case fitted_model self of
        None \<Rightarrow> Inl AttributeError
      | Some forecast \<Rightarrow> forecast steps)"

definition NaiveModel_predict :: "forecasting_model \<Rightarrow> nat \<Rightarrow> error + series" where
  "NaiveModel_predict self steps =
     (if \<not> fitted self then Inl not_fitted
      else case data self of
        None \<Rightarrow> Inl AttributeError
      | Some d \<Rightarrow>
          (case index_last d of
             Inl e \<Rightarrow> Inl e
           | Inr last_date \<Rightarrow>
               (case last_value self of
                  None \<Rightarrow> Inl AttributeError
                | Some v \<Rightarrow> Series (replicate steps v) (date_range (last_date + day) steps))))"

text \<open>
  One pass of the loop body of \<open>SeasonalNaiveModel.predict\<close>:
  \<open>self.data.iloc[-self.seasonal_period + (i % self.seasonal_period)]\<close>.
  Python's \<open>%\<close> on integers takes the sign of the divisor, as \<open>mod\<close> on \<open>int\<close> does.
\<close>

definition seasonal_value :: "pval \<Rightarrow> series \<Rightarrow> nat \<Rightarrow> error + val" where
  "seasonal_value seasonal_period d i =
     (case seasonal_period of
        PInt p \<Rightarrow>
          (if p = 0 then Inl ZeroDivisionError
           else (case iloc_at d (- p + (int i mod p)) of
                   Inl e \<Rightarrow> Inl e
                 | Inr row \<Rightarrow> Inr (snd row)))
      | PStr s \<Rightarrow> Inl TypeError
      | PNone \<Rightarrow> Inl TypeError)"

fun seasonal_loop :: "pval \<Rightarrow> series \<Rightarrow> nat list \<Rightarrow> error + val list" where
  "seasonal_loop seasonal_period d [] = Inr []"
| "seasonal_loop seasonal_period d (i # rest) =
     (case seasonal_value seasonal_period d i of
        Inl e \<Rightarrow> Inl e
      | Inr v \<Rightarrow>
          (case seasonal_loop seasonal_period d rest of
             Inl e \<Rightarrow> Inl e
           | Inr vs \<Rightarrow> Inr (v # vs)))"

definition SeasonalNaiveModel_predict :: "forecasting_model \<Rightarrow> pval \<Rightarrow> nat \<Rightarrow> error + series" where
  "SeasonalNaiveModel_predict self seasonal_period steps =
     (if \<not> fitted self then Inl not_fitted
      else case data self of
        None \<Rightarrow> Inl AttributeError
      | Some d \<Rightarrow>
          (case index_last d of
             Inl e \<Rightarrow> Inl e
           | Inr last_date \<Rightarrow>
               (case seasonal_loop seasonal_period d [0..<steps] of
                  Inl e \<Rightarrow> Inl e
                | Inr ps \<Rightarrow> Series ps (date_range (last_date + day) steps))))"

definition LinearRegressionModel_predict :: "forecasting_model \<Rightarrow> nat \<Rightarrow> error + series" where
  "LinearRegressionModel_predict self steps =
     (if \<not> fitted self then Inl not_fitted
      else case data self of
        None \<Rightarrow> Inl AttributeError
      | Some d \<Rightarrow>
          (let start_index = int (length d);
               X_future = map (\<lambda>i. start_index + int i) [0..<steps]
           in case lr_model self of
                None \<Rightarrow> Inl AttributeError
              | Some lr \<Rightarrow>
                  (case snd lr X_future of
                     Inl e \<Rightarrow> Inl e
                   | Inr ps \<Rightarrow>
                       (case index_last d of
                          Inl e \<Rightarrow> Inl e
                        | Inr last_date \<Rightarrow> Series ps (date_range (last_date + day) steps)))))"

text \<open>Dynamic dispatch of \<open>model.predict(steps)\<close>.\<close>

definition predict :: "forecasting_model \<Rightarrow> nat \<Rightarrow> error + series" where
  "predict self steps =
     (case kind self of
        MovingAverageModel window \<Rightarrow> MovingAverageModel_predict self window steps
      | ExponentialSmoothingModel trend seasonal seasonal_periods \<Rightarrow>
          ExponentialSmoothingModel_predict self steps
      | NaiveModel \<Rightarrow> NaiveModel_predict self steps
      | SeasonalNaiveModel seasonal_period \<Rightarrow> SeasonalNaiveModel_predict self seasonal_period steps
      | LinearRegressionModel \<Rightarrow> LinearRegressionModel_predict self steps)"

section \<open>Metrics\<close>

text \<open>
  Modelled from the spec: the scikit-learn functions \<open>mean_absolute_error\<close> and
  \<open>mean_absolute_percentage_error\<close> are not part of the repository. MAE is the mean
  absolute difference; MAPE is the mean of \<open>|actual - predicted| / |actual|\<close>, a ratio
  that is undefined for an actual value of 0.
\<close>

definition mean_absolute_error :: "real list \<Rightarrow> real list \<Rightarrow> real" where
  "mean_absolute_error ys ps =
     sum_list (map (\<lambda>(y, p). \<bar>y - p\<bar>) (zip ys ps)) / real (length ys)"

definition mean_absolute_percentage_error :: "real list \<Rightarrow> real list \<Rightarrow> error + real" where
  "mean_absolute_percentage_error ys ps =
     (if 0 \<in> set ys then Inl ZeroDivisionError
      else Inr (sum_list (map (\<lambda>(y, p). \<bar>y - p\<bar> / \<bar>y\<bar>) (zip ys ps)) / real (length ys)))"

text \<open>
  \<open>actual.align(predicted, join='inner')\<close> on series with unique index labels: the rows
  of \<open>actual\<close> whose label also occurs in \<open>predicted\<close>, each with both values.
\<close>

definition align_inner :: "series \<Rightarrow> series \<Rightarrow> (timestamp \<times> val \<times> val) list" where
  "align_inner a p =
     concat (map (\<lambda>(t, x). case map_of p t of None \<Rightarrow> [] | Some y \<Rightarrow> [(t, x, y)]) a)"

text \<open>The rows the NaN mask keeps.\<close>

definition not_nan :: "timestamp \<times> val \<times> val \<Rightarrow> bool" where
  "not_nan row = (fst (snd row) \<noteq> None \<and> snd (snd row) \<noteq> None)"

text \<open>\<open>aligned_actual.replace(0, 1e-10)\<close>\<close>

definition replace_zero :: "real list \<Rightarrow> real list" where
  "replace_zero ys = map (\<lambda>y. if y = 0 then 1 / 10 ^ 10 else y) ys"

definition calculate_metrics :: "series \<Rightarrow> series \<Rightarrow> error + (score \<times> score)" where
  "calculate_metrics act predicted =
     (let kept = filter not_nan (align_inner act predicted);
          aligned_actual = map (\<lambda>row. the (fst (snd row))) kept;
          aligned_predicted = map (\<lambda>row. the (snd (snd row))) kept
      in if length aligned_actual = 0 then Inr (Infinity, Infinity)
         else
           (let mae_v = mean_absolute_error aligned_actual aligned_predicted;
                aligned_actual' =
                  (if 0 \<in> set aligned_actual then replace_zero aligned_actual
                   else aligned_actual)
            in case mean_absolute_percentage_error aligned_actual' aligned_predicted of
                 Inl e \<Rightarrow> Inl e
               | Inr mape_v \<Rightarrow> Inr (Num mae_v, Num mape_v)))"

section \<open>Backtester\<close>

text \<open>
  The result dictionary of a backtest. Every key may be absent; \<open>{}\<close> is
  \<open>empty_result\<close>. The \<open>error\<close> key holds the caught exception (\<open>str(e)\<close>).
\<close>

record result =
  mae :: "score option"
  mape :: "score option"
  predictions :: "val list option"
  actual :: "val list option"
  error :: "error option"

definition empty_result :: result where
  "empty_result = \<lparr>mae = None, mape = None, predictions = None, actual = None, error = None\<rparr>"

text \<open>A \<open>Dict[str, Dict]\<close> in insertion order.\<close>

type_synonym results = "(string \<times> result) list"

text \<open>
  \<open>{"mae": float('inf'), "mape": float('inf'), "predictions": []}\<close>, returned when the
  horizon is not positive, and the same dictionary with an \<open>error\<close> key, returned by the
  exception handlers.
\<close>

definition no_horizon_result :: result where
  "no_horizon_result = \<lparr>mae = Some Infinity, mape = Some Infinity, predictions = Some [],
                         actual = None, error = None\<rparr>"

definition error_result :: "error \<Rightarrow> result" where
  "error_result e = \<lparr>mae = Some Infinity, mape = Some Infinity, predictions = Some [],
                      actual = None, error = Some e\<rparr>"

text \<open>
  \<open>backtest_single_model\<close> gives the result dictionary and the model instance as the call
  leaves it. The statements before the \<open>try\<close> block raise only in \<open>int(...)\<close>, on a
  \<open>train_size\<close> that is not finite; every exception of the \<open>try\<close> block is caught.
\<close>

definition backtest_single_model ::
  "library \<Rightarrow> forecasting_model \<Rightarrow> series \<Rightarrow> pyfloat \<Rightarrow> int
     \<Rightarrow> error + (result \<times> forecasting_model)" where
  "backtest_single_model lib model d train_size forecast_horizon =
     (case train_size of
        NonFinite \<Rightarrow> Inl FloatConversionError
      | Finite ts \<Rightarrow>
          (let split_index = py_int (real (length d) * ts);
               train_data = iloc_to split_index d;
               test_data = iloc_from split_index d;
               forecast_horizon' =
                 (if int (length test_data) < forecast_horizon then int (length test_data)
                  else forecast_horizon)
           in if forecast_horizon' \<le> 0 then Inr (no_horizon_result, model)
              else
                (case fit lib model train_data of
                   (model', Some e) \<Rightarrow> Inr (error_result e, model')
                 | (model', None) \<Rightarrow>
                     (case predict model' (nat forecast_horizon') of
                        Inl e \<Rightarrow> Inr (error_result e, model')
                      | Inr ps \<Rightarrow>
                          (let actual_values = iloc_to forecast_horizon' test_data
                           in case calculate_metrics actual_values ps of
                                Inl e \<Rightarrow> Inr (error_result e, model')
                              | Inr metrics \<Rightarrow>
                                  Inr (\<lparr>mae = Some (fst metrics), mape = Some (snd metrics),
                                        predictions = Some (map snd ps),
                                        actual = Some (map snd actual_values),
                                        error = None\<rparr>, model'))))))"

text \<open>
  The loop of \<open>backtest_all_models\<close> over \<open>self.models\<close>; \<open>results[model.name] = ...\<close>
  is \<open>AList.update\<close>. It gives the results and the model instances as the loop leaves them.
\<close>

fun backtest_all_models_loop ::
  "library \<Rightarrow> forecasting_model list \<Rightarrow> series \<Rightarrow> pyfloat \<Rightarrow> int \<Rightarrow> results
     \<Rightarrow> results \<times> forecasting_model list" where
  "backtest_all_models_loop lib [] d train_size forecast_horizon rs = (rs, [])"
| "backtest_all_models_loop lib (model # models) d train_size forecast_horizon rs =
     (case backtest_single_model lib model d train_size forecast_horizon of
        Inr (model_results, model') \<Rightarrow>
          (let (rs', models') =
                 backtest_all_models_loop lib models d train_size forecast_horizon
                   (AList.update (name (kind model)) model_results rs)
           in (rs', model' # models'))
      | Inl e \<Rightarrow>
          (let (rs', models') =
                 backtest_all_models_loop lib models d train_size forecast_horizon
                   (AList.update (name (kind model)) (error_result e) rs)
           in (rs', model # models')))"

definition backtest_all_models ::
  "library \<Rightarrow> forecasting_model list \<Rightarrow> series \<Rightarrow> pyfloat \<Rightarrow> int
     \<Rightarrow> results \<times> forecasting_model list" where
  "backtest_all_models lib models d train_size forecast_horizon =
     backtest_all_models_loop lib models d train_size forecast_horizon []"

subsection \<open>select\_best\_model\<close>

text \<open>\<open>results.get("mae", float('inf'))\<close>\<close>

definition get_mae :: "result \<Rightarrow> score" where
  "get_mae r = (case mae r of None \<Rightarrow> Infinity | Some m \<Rightarrow> m)"

text \<open>
  The loop over \<open>backtest_results.items()\<close>; the state is
  \<open>(best_model_name, best_mae, best_results)\<close>.
\<close>

fun select_loop :: "results \<Rightarrow> string option \<times> score \<times> result \<Rightarrow> string option \<times> score \<times> result" where
  "select_loop [] st = st"
| "select_loop ((model_name, r) # rest) (best_model_name, best_mae, best_results) =
     (if error r \<noteq> None then select_loop rest (best_model_name, best_mae, best_results)
      else if score_less (get_mae r) best_mae
           then select_loop rest (Some model_name, get_mae r, r)
           else select_loop rest (best_model_name, best_mae, best_results))"

definition select_best_model :: "results \<Rightarrow> error + (string \<times> result)" where
  "select_best_model backtest_results =
     (case select_loop backtest_results (None, Infinity, empty_result) of
        (Some best_model_name, best_mae, best_results) \<Rightarrow> Inr (best_model_name, best_results)
      | (None, best_mae, best_results) \<Rightarrow>
          (case map fst backtest_results of
             [] \<Rightarrow> Inl IndexError
           | best_model_name # ks \<Rightarrow>
               (case map_of backtest_results best_model_name of
                  None \<Rightarrow> Inl KeyError
                | Some best_results' \<Rightarrow> Inr (best_model_name, best_results'))))"

text \<open>\<open>create_default_models\<close>\<close>

definition create_default_models :: "forecasting_model list" where
  "create_default_models =
     [new_model LinearRegressionModel,
      new_model (MovingAverageModel (PInt 7)),
      new_model (ExponentialSmoothingModel (PStr ''add'') PNone PNone),
      new_model NaiveModel,
      new_model (SeasonalNaiveModel (PInt 7))]"

section \<open>Grid search\<close>

text \<open>\<open>self.param_grids\<close>, in declaration order.\<close>

definition param_grids :: "(string \<times> (string \<times> pval list) list) list" where
  "param_grids =
     [(''Moving Average'', [(''window'', [PInt 3, PInt 5, PInt 7, PInt 14, PInt 30])]),
      (''Exponential Smoothing'',
         [(''trend'', [PStr ''add'', PStr ''mul'', PNone]),
          (''seasonal'', [PNone, PStr ''add'', PStr ''mul'']),
          (''seasonal_periods'', [PNone, PInt 7, PInt 12, PInt 30])]),
      (''Naive'', []),
      (''Seasonal Naive'', [(''seasonal_period'', [PInt 3, PInt 5, PInt 7, PInt 12, PInt 30])])]"

text \<open>
  The comprehension
  \<open>[v for v in val_list if v is not None or len(val_list) == 1 or v is not None]\<close>.
\<close>

definition processed :: "pval list \<Rightarrow> pval list" where
  "processed val_list =
     filter (\<lambda>v. v \<noteq> PNone \<or> length val_list = 1 \<or> v \<noteq> PNone) val_list"

text \<open>
  \<open>itertools.product\<close> enumerates with the rightmost list varying fastest, as
  \<open>product_lists\<close> does; \<open>dict(zip(keys, combination))\<close> is \<open>zip\<close>, the keys being distinct.
\<close>

definition generate_param_combinations :: "string \<Rightarrow> params list" where
  "generate_param_combinations model_name =
     (case map_of param_grids model_name of
        None \<Rightarrow> [[]]
      | Some param_grid \<Rightarrow>
          (if param_grid = [] then [[]]
           else
             (let keys = map fst param_grid;
                  vals = map snd param_grid;
                  processed_values = map processed vals;
                  combinations = product_lists processed_values
              in map (\<lambda>combination. zip keys combination) combinations)))"

text \<open>\<open>params.get(key, default)\<close>\<close>

definition params_get :: "params \<Rightarrow> string \<Rightarrow> pval \<Rightarrow> pval" where
  "params_get ps key dflt = (case map_of ps key of None \<Rightarrow> dflt | Some v \<Rightarrow> v)"

definition create_model_with_params :: "string \<Rightarrow> params \<Rightarrow> error + forecasting_model" where
  "create_model_with_params model_name ps =
     (if model_name = ''Moving Average''
      then Inr (new_model (MovingAverageModel (params_get ps ''window'' (PInt 7))))
      else if model_name = ''Exponential Smoothing''
      then Inr (new_model (ExponentialSmoothingModel (params_get ps ''trend'' PNone)
                  (params_get ps ''seasonal'' PNone) (params_get ps ''seasonal_periods'' PNone)))
      else if model_name = ''Naive''
      then Inr (new_model NaiveModel)
      else if model_name = ''Seasonal Naive''
      then Inr (new_model (SeasonalNaiveModel (params_get ps ''seasonal_period'' (PInt 7))))
      else Inl (ValueError ''Unknown model''))"

text \<open>
  The loop of \<open>grid_search\<close> over the combinations; the state is
  \<open>(best_params, best_mae)\<close>. An exception of the loop body is caught and the
  combination skipped.
\<close>

fun grid_search_loop ::
  "library \<Rightarrow> series \<Rightarrow> string \<Rightarrow> pyfloat \<Rightarrow> int \<Rightarrow> params list \<Rightarrow> params \<times> score
     \<Rightarrow> params \<times> score" where
  "grid_search_loop lib d model_name train_size forecast_horizon [] st = st"
| "grid_search_loop lib d model_name train_size forecast_horizon (ps # rest) (best_params, best_mae) =
     (case create_model_with_params model_name ps of
        Inl e \<Rightarrow>
          grid_search_loop lib d model_name train_size forecast_horizon rest (best_params, best_mae)
      | Inr model \<Rightarrow>
          (case backtest_single_model lib model d train_size forecast_horizon of
             Inl e \<Rightarrow>
               grid_search_loop lib d model_name train_size forecast_horizon rest
                 (best_params, best_mae)
           | Inr (rs, model') \<Rightarrow>
               (if score_less (get_mae rs) best_mae
                then grid_search_loop lib d model_name train_size forecast_horizon rest
                       (ps, get_mae rs)
                else grid_search_loop lib d model_name train_size forecast_horizon rest
                       (best_params, best_mae))))"

definition grid_search ::
  "library \<Rightarrow> series \<Rightarrow> string \<Rightarrow> pyfloat \<Rightarrow> int \<Rightarrow> error + (params \<times> score)" where
  "grid_search lib d model_name train_size forecast_horizon =
     Inr (grid_search_loop lib d model_name train_size forecast_horizon
            (generate_param_combinations model_name) ([], Infinity))"

section \<open>Example inputs\<close>

definition scored :: "real \<Rightarrow> result" where
  "scored m = \<lparr>mae = Some (Num m), mape = Some (Num 0), predictions = Some [Some 1],
                actual = Some [Some 1], error = None\<rparr>"

text \<open>
  A library instance for the examples: both routines reject an empty series, the
  smoothing also rejects a seasonal configuration on fewer than two full seasons, as the
  real ones do, and otherwise they fit a constant, the last observation.
\<close>

definition example_library :: library where
  "example_library =
     \<lparr>LinearRegression_fit =
        (\<lambda>y. if y = [] then Inl (LibraryError ''Found array with 0 sample(s)'')
             else Inr (0, \<lambda>xs. Inr (map (\<lambda>x. last y) xs))),
      ExponentialSmoothing_fit =
        (\<lambda>d trend seasonal seasonal_periods.
           if d = [] then Inl (LibraryError ''zero-size array'')
           else if seasonal \<noteq> PNone \<and>
                   (case seasonal_periods of PInt n \<Rightarrow> int (length d) < 2 * n | PStr s \<Rightarrow> True
                    | PNone \<Rightarrow> True)
           then Inl (LibraryError ''Cannot compute initial seasonals'')
           else Inr (\<lambda>steps. Inr (zip (date_range (fst (last d) + day) steps)
                                     (replicate steps (snd (last d))))))\<rparr>"

text \<open>A series of \<open>n\<close> consecutive days with the values 1, 2, ..., \<open>n\<close>.\<close>

definition ramp :: "nat \<Rightarrow> series" where
  "ramp n = map (\<lambda>i. (day * int i, Some (real i + 1))) [0..<n]"

text \<open>Three observations, 10, 20 and 30, on consecutive days.\<close>

definition three_days :: series where
  "three_days = [(0, Some 10), (day, Some 20), (2 * day, Some 30)]"

section \<open>Statement vocabulary\<close>

text \<open>
  The index a forecast of \<open>steps\<close> values after the series \<open>train\<close> should carry:
  consecutive days, the first one day after the last timestamp of \<open>train\<close>.
\<close>

definition daily_index_after :: "series \<Rightarrow> nat \<Rightarrow> timestamp list" where
  "daily_index_after train steps = map (\<lambda>i. fst (last train) + day * (int i + 1)) [0..<steps]"

definition daily_forecast :: "series \<Rightarrow> nat \<Rightarrow> series \<Rightarrow> bool" where
  "daily_forecast train steps s =
     (length s = steps \<and> map fst s = daily_index_after train steps \<and> sorted_wrt (<) (map fst s))"

section \<open>Properties of the selection\<close>

lemma score_less_irrefl: "\<not> score_less a a"
  by (cases a) simp_all

lemma score_less_trans: "score_less a b \<Longrightarrow> score_less b c \<Longrightarrow> score_less a c"
  by (cases a; cases b; cases c) simp_all

lemma score_less_asym: "score_less a b \<Longrightarrow> \<not> score_less b a"
  by (cases a; cases b) simp_all

lemma score_not_less_trans: "\<not> score_less a b \<Longrightarrow> score_less c b \<Longrightarrow> score_less c a"
  by (cases a; cases b; cases c) simp_all

lemma score_less_not_less: "score_less a b \<Longrightarrow> \<not> score_less c b \<Longrightarrow> \<not> score_less c a"
  by (cases a; cases b; cases c) simp_all

text \<open>
  What the loop computes from any starting state: either no error-free entry beats
  the starting score and the state is unchanged, or the state holds an entry of the
  list that beats the starting score, with strictly worse error-free entries before it
  and no better error-free entry after it.
\<close>

lemma select_loop_spec:
  "select_loop rs (bn, bm, br) = (bn', bm', br') \<Longrightarrow>
     ((bn', bm', br') = (bn, bm, br) \<and>
        (\<forall>(n, r) \<in> set rs. error r = None \<longrightarrow> \<not> score_less (get_mae r) bm))
   \<or> (\<exists>pre n post. rs = pre @ (n, br') # post \<and> bn' = Some n \<and> error br' = None \<and>
        bm' = get_mae br' \<and> score_less bm' bm \<and>
        (\<forall>(k, r) \<in> set pre. error r = None \<longrightarrow> score_less bm' (get_mae r)) \<and>
        (\<forall>(k, r) \<in> set post. error r = None \<longrightarrow> \<not> score_less (get_mae r) bm'))"
proof (induction rs arbitrary: bn bm br)
  case Nil
  then show ?case by simp
next
  case (Cons x rs)
  obtain m r where x: "x = (m, r)" by (cases x)
  show ?case
  proof (cases "error r = None \<and> score_less (get_mae r) bm")
    case False
    then have run: "select_loop rs (bn, bm, br) = (bn', bm', br')"
      using Cons.prems x by (auto split: if_splits)
    from Cons.IH [OF run] show ?thesis
    proof
      assume same: "(bn', bm', br') = (bn, bm, br) \<and>
        (\<forall>(n, r) \<in> set rs. error r = None \<longrightarrow> \<not> score_less (get_mae r) bm)"
      then show ?thesis using False x by auto
    next
      assume "\<exists>pre n post. rs = pre @ (n, br') # post \<and> bn' = Some n \<and> error br' = None \<and>
        bm' = get_mae br' \<and> score_less bm' bm \<and>
        (\<forall>(k, r) \<in> set pre. error r = None \<longrightarrow> score_less bm' (get_mae r)) \<and>
        (\<forall>(k, r) \<in> set post. error r = None \<longrightarrow> \<not> score_less (get_mae r) bm')"
      then obtain pre n post where p: "rs = pre @ (n, br') # post" "bn' = Some n"
        "error br' = None" "bm' = get_mae br'" "score_less bm' bm"
        "\<forall>(k, r) \<in> set pre. error r = None \<longrightarrow> score_less bm' (get_mae r)"
        "\<forall>(k, r) \<in> set post. error r = None \<longrightarrow> \<not> score_less (get_mae r) bm'"
        by blast
      have first: "error r = None \<longrightarrow> score_less bm' (get_mae r)"
        using False p(5) score_not_less_trans by blast
      have "x # rs = (x # pre) @ (n, br') # post" using p(1) by simp
      moreover have "\<forall>(k, r) \<in> set (x # pre). error r = None \<longrightarrow> score_less bm' (get_mae r)"
        using first p(6) x by simp
      ultimately show ?thesis using p by blast
    qed
  next
    case True
    then have run: "select_loop rs (Some m, get_mae r, r) = (bn', bm', br')"
      using Cons.prems x by simp
    from Cons.IH [OF run] show ?thesis
    proof
      assume same: "(bn', bm', br') = (Some m, get_mae r, r) \<and>
        (\<forall>(n, r') \<in> set rs. error r' = None \<longrightarrow> \<not> score_less (get_mae r') (get_mae r))"
      then have eqs: "bn' = Some m" "bm' = get_mae r" "br' = r" by simp_all
      have "x # rs = [] @ (m, br') # rs \<and> bn' = Some m \<and> error br' = None \<and>
        bm' = get_mae br' \<and> score_less bm' bm \<and>
        (\<forall>(k, r) \<in> set []. error r = None \<longrightarrow> score_less bm' (get_mae r)) \<and>
        (\<forall>(k, r) \<in> set rs. error r = None \<longrightarrow> \<not> score_less (get_mae r) bm')"
        using same True x eqs by simp
      then show ?thesis by blast
    next
      assume "\<exists>pre n post. rs = pre @ (n, br') # post \<and> bn' = Some n \<and> error br' = None \<and>
        bm' = get_mae br' \<and> score_less bm' (get_mae r) \<and>
        (\<forall>(k, r) \<in> set pre. error r = None \<longrightarrow> score_less bm' (get_mae r)) \<and>
        (\<forall>(k, r) \<in> set post. error r = None \<longrightarrow> \<not> score_less (get_mae r) bm')"
      then obtain pre n post where p: "rs = pre @ (n, br') # post" "bn' = Some n"
        "error br' = None" "bm' = get_mae br'" "score_less bm' (get_mae r)"
        "\<forall>(k, r) \<in> set pre. error r = None \<longrightarrow> score_less bm' (get_mae r)"
        "\<forall>(k, r) \<in> set post. error r = None \<longrightarrow> \<not> score_less (get_mae r) bm'"
        by blast
      have lt: "score_less bm' bm" using p(5) True score_less_trans by blast
      have "x # rs = (x # pre) @ (n, br') # post" using p(1) by simp
      moreover have "\<forall>(k, r) \<in> set (x # pre). error r = None \<longrightarrow> score_less bm' (get_mae r)"
        using p(5) p(6) x by simp
      ultimately show ?thesis using p lt by blast
    qed
  qed
qed

lemma score_not_less_Infinity: "(\<not> score_less a Infinity) = (a = Infinity)"
  by (cases a) simp_all

lemma select_best_model_found:
  assumes "select_loop rs (None, Infinity, empty_result) = (Some n, bm, br)"
  shows "select_best_model rs = Inr (n, br)"
  using assms by (simp add: select_best_model_def)

lemma select_best_model_fallback:
  assumes "select_loop rs (None, Infinity, empty_result) = (None, bm, br)" and "rs \<noteq> []"
  shows "select_best_model rs = Inr (hd rs)"
proof -
  obtain k r rest where rs: "rs = (k, r) # rest"
    using assms(2) by (cases rs) auto
  show ?thesis using assms(1) by (simp add: select_best_model_def rs)
qed

lemma select_best_model_cases:
  assumes "rs \<noteq> []"
  shows "(select_best_model rs = Inr (hd rs) \<and>
            (\<forall>(k, r) \<in> set rs. error r = None \<longrightarrow> get_mae r = Infinity))
       \<or> (\<exists>pre n r post. rs = pre @ (n, r) # post \<and> select_best_model rs = Inr (n, r) \<and>
            error r = None \<and> score_less (get_mae r) Infinity \<and>
            (\<forall>(k, r') \<in> set pre. error r' = None \<longrightarrow> score_less (get_mae r) (get_mae r')) \<and>
            (\<forall>(k, r') \<in> set post. error r' = None \<longrightarrow> \<not> score_less (get_mae r') (get_mae r)))"
proof -
  obtain bn' bm' br' where run: "select_loop rs (None, Infinity, empty_result) = (bn', bm', br')"
    by (cases "select_loop rs (None, Infinity, empty_result)")
  from select_loop_spec [OF run] show ?thesis
  proof
    assume same: "(bn', bm', br') = (None, Infinity, empty_result) \<and>
      (\<forall>(n, r) \<in> set rs. error r = None \<longrightarrow> \<not> score_less (get_mae r) Infinity)"
    then have "select_loop rs (None, Infinity, empty_result) = (None, bm', br')"
      using run by simp
    then have "select_best_model rs = Inr (hd rs)"
      using assms by (rule select_best_model_fallback)
    moreover have "\<forall>(k, r) \<in> set rs. error r = None \<longrightarrow> get_mae r = Infinity"
      using same by (simp add: score_not_less_Infinity)
    ultimately show ?thesis by blast
  next
    assume "\<exists>pre n post. rs = pre @ (n, br') # post \<and> bn' = Some n \<and> error br' = None \<and>
      bm' = get_mae br' \<and> score_less bm' Infinity \<and>
      (\<forall>(k, r) \<in> set pre. error r = None \<longrightarrow> score_less bm' (get_mae r)) \<and>
      (\<forall>(k, r) \<in> set post. error r = None \<longrightarrow> \<not> score_less (get_mae r) bm')"
    then obtain pre n post where p: "rs = pre @ (n, br') # post" "bn' = Some n"
      "error br' = None" "bm' = get_mae br'" "score_less bm' Infinity"
      "\<forall>(k, r) \<in> set pre. error r = None \<longrightarrow> score_less bm' (get_mae r)"
      "\<forall>(k, r) \<in> set post. error r = None \<longrightarrow> \<not> score_less (get_mae r) bm'"
      by blast
    have "select_best_model rs = Inr (n, br')"
      using run p(2) by (simp add: select_best_model_found)
    then have "rs = pre @ (n, br') # post \<and> select_best_model rs = Inr (n, br') \<and>
      error br' = None \<and> score_less (get_mae br') Infinity \<and>
      (\<forall>(k, r') \<in> set pre. error r' = None \<longrightarrow> score_less (get_mae br') (get_mae r')) \<and>
      (\<forall>(k, r') \<in> set post. error r' = None \<longrightarrow> \<not> score_less (get_mae r') (get_mae br'))"
      using p by simp
    then show ?thesis by blast
  qed
qed

text \<open>
  C1 (as stated): \<open>select_best_model\<close> returns the error-free entry of lowest MAE.
  It does not when the only error-free entries carry the infinite score: for
  \<open>{A: error, B: mae = inf without error}\<close> the loop selects nothing, and the fallback
  returns the first entry \<open>A\<close>, which has an \<open>error\<close> field, although \<open>B\<close> is error-free.
\<close>

theorem select_best_model_returns_errored_entry:
  "select_best_model [(''A'', error_result IndexError), (''B'', no_horizon_result)] = Inr (''A'', error_result IndexError)
   \<and> error (error_result IndexError) \<noteq> None \<and> error no_horizon_result = None
   \<and> \<not> (\<exists>n r. select_best_model [(''A'', error_result IndexError), (''B'', no_horizon_result)] = Inr (n, r)
            \<and> error r = None)"
  by (simp add: select_best_model_def error_result_def no_horizon_result_def get_mae_def)

text \<open>
  C1 (amended): on a non-empty mapping, when some entry without an \<open>error\<close> field has a MAE
  below +infinity, \<open>select_best_model\<close> returns an entry without \<open>error\<close> field whose MAE
  is below +infinity, strictly lower than the MAE of every error-free entry before it and not
  higher than the MAE of any error-free entry after it (the first of the lowest). Otherwise,
  in particular when every entry has an \<open>error\<close> field, it returns the first entry of the
  mapping.
\<close>

theorem select_best_model_lowest_or_first:
  assumes "rs \<noteq> []"
  shows "((\<exists>(k, r) \<in> set rs. error r = None \<and> score_less (get_mae r) Infinity) \<longrightarrow>
            (\<exists>pre n r post. rs = pre @ (n, r) # post \<and> select_best_model rs = Inr (n, r) \<and>
               error r = None \<and> score_less (get_mae r) Infinity \<and>
               (\<forall>(k, r') \<in> set pre. error r' = None \<longrightarrow> score_less (get_mae r) (get_mae r')) \<and>
               (\<forall>(k, r') \<in> set post. error r' = None \<longrightarrow> \<not> score_less (get_mae r') (get_mae r))))
       \<and> ((\<forall>(k, r) \<in> set rs. error r \<noteq> None \<or> get_mae r = Infinity) \<longrightarrow>
            select_best_model rs = Inr (hd rs))
       \<and> ((\<forall>(k, r) \<in> set rs. error r \<noteq> None) \<longrightarrow> select_best_model rs = Inr (hd rs))"
proof (intro conjI impI)
  assume ex: "\<exists>(k, r) \<in> set rs. error r = None \<and> score_less (get_mae r) Infinity"
  then have neg: "\<not> (\<forall>(k, r) \<in> set rs. error r = None \<longrightarrow> get_mae r = Infinity)"
    using score_less_irrefl by fastforce
  from select_best_model_cases [OF assms]
  show "\<exists>pre n r post. rs = pre @ (n, r) # post \<and> select_best_model rs = Inr (n, r) \<and>
      error r = None \<and> score_less (get_mae r) Infinity \<and>
      (\<forall>(k, r') \<in> set pre. error r' = None \<longrightarrow> score_less (get_mae r) (get_mae r')) \<and>
      (\<forall>(k, r') \<in> set post. error r' = None \<longrightarrow> \<not> score_less (get_mae r') (get_mae r))"
  proof (rule disjE)
    assume "select_best_model rs = Inr (hd rs) \<and>
      (\<forall>(k, r) \<in> set rs. error r = None \<longrightarrow> get_mae r = Infinity)"
    then have "\<forall>(k, r) \<in> set rs. error r = None \<longrightarrow> get_mae r = Infinity"
      by (rule conjunct2)
    with neg show ?thesis by contradiction
  next
    assume "\<exists>pre n r post. rs = pre @ (n, r) # post \<and> select_best_model rs = Inr (n, r) \<and>
      error r = None \<and> score_less (get_mae r) Infinity \<and>
      (\<forall>(k, r') \<in> set pre. error r' = None \<longrightarrow> score_less (get_mae r) (get_mae r')) \<and>
      (\<forall>(k, r') \<in> set post. error r' = None \<longrightarrow> \<not> score_less (get_mae r') (get_mae r))"
    then show ?thesis .
  qed
next
  assume none: "\<forall>(k, r) \<in> set rs. error r \<noteq> None \<or> get_mae r = Infinity"
  from select_best_model_cases [OF assms]
  show "select_best_model rs = Inr (hd rs)"
  proof (rule disjE)
    assume "select_best_model rs = Inr (hd rs) \<and>
      (\<forall>(k, r) \<in> set rs. error r = None \<longrightarrow> get_mae r = Infinity)"
    then show ?thesis by (rule conjunct1)
  next
    assume "\<exists>pre n r post. rs = pre @ (n, r) # post \<and> select_best_model rs = Inr (n, r) \<and>
      error r = None \<and> score_less (get_mae r) Infinity \<and>
      (\<forall>(k, r') \<in> set pre. error r' = None \<longrightarrow> score_less (get_mae r) (get_mae r')) \<and>
      (\<forall>(k, r') \<in> set post. error r' = None \<longrightarrow> \<not> score_less (get_mae r') (get_mae r))"
    then obtain pre n r post where q: "rs = pre @ (n, r) # post" "error r = None"
      "score_less (get_mae r) Infinity" by blast
    have "(n, r) \<in> set rs" using q(1) by simp
    then have "get_mae r = Infinity" using none q(2) by auto
    then have False using q(3) by simp
    then show ?thesis by (rule FalseE)
  qed
next
  assume all: "\<forall>(k, r) \<in> set rs. error r \<noteq> None"
  from select_best_model_cases [OF assms]
  show "select_best_model rs = Inr (hd rs)"
  proof (rule disjE)
    assume "select_best_model rs = Inr (hd rs) \<and>
      (\<forall>(k, r) \<in> set rs. error r = None \<longrightarrow> get_mae r = Infinity)"
    then show ?thesis by (rule conjunct1)
  next
    assume "\<exists>pre n r post. rs = pre @ (n, r) # post \<and> select_best_model rs = Inr (n, r) \<and>
      error r = None \<and> score_less (get_mae r) Infinity \<and>
      (\<forall>(k, r') \<in> set pre. error r' = None \<longrightarrow> score_less (get_mae r) (get_mae r')) \<and>
      (\<forall>(k, r') \<in> set post. error r' = None \<longrightarrow> \<not> score_less (get_mae r') (get_mae r))"
    then obtain pre n r post where q: "rs = pre @ (n, r) # post" "error r = None" by blast
    have "(n, r) \<in> set rs" using q(1) by simp
    then have False using all q(2) by auto
    then show ?thesis by (rule FalseE)
  qed
qed

text \<open>The mapping \<open>{A: mae=5, B: mae=2, C: error}\<close>: the selection is \<open>B\<close>.\<close>

theorem select_best_model_lowest_or_first_witness:
  "[(''A'', scored 5), (''B'', scored 2), (''C'', error_result IndexError)] \<noteq> []
   \<and> (\<exists>(k, r) \<in> set [(''A'', scored 5), (''B'', scored 2), (''C'', error_result IndexError)].
         error r = None \<and> score_less (get_mae r) Infinity)
   \<and> select_best_model [(''A'', scored 5), (''B'', scored 2), (''C'', error_result IndexError)]
       = Inr (''B'', scored 2)
   \<and> (\<exists>pre n r post. [(''A'', scored 5), (''B'', scored 2), (''C'', error_result IndexError)] = pre @ (n, r) # post
         \<and> select_best_model [(''A'', scored 5), (''B'', scored 2), (''C'', error_result IndexError)] = Inr (n, r)
         \<and> error r = None \<and> score_less (get_mae r) Infinity
         \<and> (\<forall>(k, r') \<in> set pre. error r' = None \<longrightarrow> score_less (get_mae r) (get_mae r'))
         \<and> (\<forall>(k, r') \<in> set post. error r' = None \<longrightarrow> \<not> score_less (get_mae r') (get_mae r)))"
proof -
  let ?rs = "[(''A'', scored 5), (''B'', scored 2), (''C'', error_result IndexError)]"
  have ne: "?rs \<noteq> []" by simp
  have ex: "\<exists>(k, r) \<in> set ?rs. error r = None \<and> score_less (get_mae r) Infinity"
    by (simp add: scored_def get_mae_def)
  have sel: "select_best_model ?rs = Inr (''B'', scored 2)"
    by (simp add: select_best_model_def scored_def error_result_def get_mae_def)
  have "(\<exists>(k, r) \<in> set ?rs. error r = None \<and> score_less (get_mae r) Infinity) \<longrightarrow>
      (\<exists>pre n r post. ?rs = pre @ (n, r) # post \<and> select_best_model ?rs = Inr (n, r) \<and>
      error r = None \<and> score_less (get_mae r) Infinity \<and>
      (\<forall>(k, r') \<in> set pre. error r' = None \<longrightarrow> score_less (get_mae r) (get_mae r')) \<and>
      (\<forall>(k, r') \<in> set post. error r' = None \<longrightarrow> \<not> score_less (get_mae r') (get_mae r)))"
    using select_best_model_lowest_or_first [OF ne] by (rule conjunct1)
  then have found: "\<exists>pre n r post. ?rs = pre @ (n, r) # post \<and> select_best_model ?rs = Inr (n, r) \<and>
      error r = None \<and> score_less (get_mae r) Infinity \<and>
      (\<forall>(k, r') \<in> set pre. error r' = None \<longrightarrow> score_less (get_mae r) (get_mae r')) \<and>
      (\<forall>(k, r') \<in> set post. error r' = None \<longrightarrow> \<not> score_less (get_mae r') (get_mae r))"
    using ex by (rule mp)
  show ?thesis
    using ne ex sel found by (intro conjI)
qed

section \<open>Properties of the parameter grid\<close>

lemma processed_set: "v \<in> set (processed vs) \<longleftrightarrow> v \<in> set vs \<and> (v = PNone \<longrightarrow> length vs = 1)"
  by (auto simp: processed_def)

lemma zip_product_lists_iff:
  assumes "length keys = length xss"
  shows "c \<in> set (map (zip keys) (product_lists xss)) \<longleftrightarrow>
         map fst c = keys \<and> list_all2 (\<lambda>v vs. v \<in> set vs) (map snd c) xss"
proof
  assume "c \<in> set (map (zip keys) (product_lists xss))"
  then obtain comb where comb: "comb \<in> set (product_lists xss)" "c = zip keys comb"
    by auto
  have len: "length comb = length keys"
    using in_set_product_lists_length [OF comb(1)] assms by simp
  have "list_all2 (\<lambda>v vs. v \<in> set vs) comb xss"
    using comb(1) by (simp add: product_lists_set)
  then show "map fst c = keys \<and> list_all2 (\<lambda>v vs. v \<in> set vs) (map snd c) xss"
    using comb(2) len by simp
next
  assume a: "map fst c = keys \<and> list_all2 (\<lambda>v vs. v \<in> set vs) (map snd c) xss"
  then have "map snd c \<in> set (product_lists xss)"
    by (simp add: product_lists_set)
  moreover have "c = zip keys (map snd c)"
    using a by (metis zip_map_fst_snd)
  ultimately show "c \<in> set (map (zip keys) (product_lists xss))"
    by (metis image_eqI set_map)
qed

lemma generate_param_combinations_declared:
  assumes "map_of param_grids model_name = Some param_grid" and "param_grid \<noteq> []"
  shows "generate_param_combinations model_name =
         map (zip (map fst param_grid)) (product_lists (map processed (map snd param_grid)))"
  using assms by (simp add: generate_param_combinations_def)

lemma generate_param_combinations_member:
  assumes "map_of param_grids model_name = Some param_grid" and "param_grid \<noteq> []"
  shows "c \<in> set (generate_param_combinations model_name) \<longleftrightarrow>
         map fst c = map fst param_grid \<and>
         list_all2 (\<lambda>v vs. v \<in> set vs \<and> (v = PNone \<longrightarrow> length vs = 1))
           (map snd c) (map snd param_grid)"
proof -
  have "c \<in> set (generate_param_combinations model_name) \<longleftrightarrow>
        map fst c = map fst param_grid \<and>
        list_all2 (\<lambda>v vs. v \<in> set vs) (map snd c) (map processed (map snd param_grid))"
    unfolding generate_param_combinations_declared [OF assms]
    by (rule zip_product_lists_iff) simp
  also have "list_all2 (\<lambda>v vs. v \<in> set vs) (map snd c) (map processed (map snd param_grid)) \<longleftrightarrow>
        list_all2 (\<lambda>v vs. v \<in> set vs \<and> (v = PNone \<longrightarrow> length vs = 1))
          (map snd c) (map snd param_grid)"
    by (simp add: list_all2_map2 processed_set)
  finally show ?thesis .
qed

lemma generate_param_combinations_Exponential_Smoothing:
  "generate_param_combinations ''Exponential Smoothing'' =
     [[(''trend'', PStr ''add''), (''seasonal'', PStr ''add''), (''seasonal_periods'', PInt 7)],
      [(''trend'', PStr ''add''), (''seasonal'', PStr ''add''), (''seasonal_periods'', PInt 12)],
      [(''trend'', PStr ''add''), (''seasonal'', PStr ''add''), (''seasonal_periods'', PInt 30)],
      [(''trend'', PStr ''add''), (''seasonal'', PStr ''mul''), (''seasonal_periods'', PInt 7)],
      [(''trend'', PStr ''add''), (''seasonal'', PStr ''mul''), (''seasonal_periods'', PInt 12)],
      [(''trend'', PStr ''add''), (''seasonal'', PStr ''mul''), (''seasonal_periods'', PInt 30)],
      [(''trend'', PStr ''mul''), (''seasonal'', PStr ''add''), (''seasonal_periods'', PInt 7)],
      [(''trend'', PStr ''mul''), (''seasonal'', PStr ''add''), (''seasonal_periods'', PInt 12)],
      [(''trend'', PStr ''mul''), (''seasonal'', PStr ''add''), (''seasonal_periods'', PInt 30)],
      [(''trend'', PStr ''mul''), (''seasonal'', PStr ''mul''), (''seasonal_periods'', PInt 7)],
      [(''trend'', PStr ''mul''), (''seasonal'', PStr ''mul''), (''seasonal_periods'', PInt 12)],
      [(''trend'', PStr ''mul''), (''seasonal'', PStr ''mul''), (''seasonal_periods'', PInt 30)]]"
  by (simp add: generate_param_combinations_def param_grids_def processed_def)

lemma generate_param_combinations_Moving_Average:
  "generate_param_combinations ''Moving Average'' =
     [[(''window'', PInt 3)], [(''window'', PInt 5)], [(''window'', PInt 7)],
      [(''window'', PInt 14)], [(''window'', PInt 30)]]"
  by (simp add: generate_param_combinations_def param_grids_def processed_def)

lemma generate_param_combinations_Naive: "generate_param_combinations ''Naive'' = [[]]"
  by (simp add: generate_param_combinations_def param_grids_def)

text \<open>
  C2 (as stated): the combinations of a family include the null values declared in its
  grid, so that \<open>Exponential Smoothing\<close> has 36 of them. The comprehension that prepares
  the candidate lists drops \<open>None\<close> from every list with more than one candidate:
  \<open>Exponential Smoothing\<close> has 12 combinations, and the assignment of \<open>None\<close> to all
  three hyperparameters is not among them.
\<close>

theorem generate_param_combinations_drops_None:
  "length (generate_param_combinations ''Exponential Smoothing'') = 12
   \<and> length (generate_param_combinations ''Exponential Smoothing'') \<noteq> 36
   \<and> [(''trend'', PNone), (''seasonal'', PNone), (''seasonal_periods'', PNone)]
        \<notin> set (generate_param_combinations ''Exponential Smoothing'')"
  by (simp add: generate_param_combinations_Exponential_Smoothing)

text \<open>
  C2 (amended): for every declared family with hyperparameters,
  \<open>generate_param_combinations\<close> returns exactly the Cartesian product of the family's
  candidate lists after \<open>None\<close> has been removed from every list with more than one
  candidate: an assignment is returned if and only if it assigns, to the hyperparameters in
  declaration order, a declared candidate each, none of them \<open>None\<close> unless it is the only
  candidate. \<open>Exponential Smoothing\<close> yields 2 * 2 * 3 = 12 distinct combinations; a
  family with no declared hyperparameters, such as \<open>Naive\<close>, yields exactly the empty
  assignment; \<open>Moving Average\<close> yields exactly 5 combinations.
\<close>

theorem generate_param_combinations_product:
  "(\<forall>model_name param_grid c.
      map_of param_grids model_name = Some param_grid \<and> param_grid \<noteq> [] \<longrightarrow>
        (c \<in> set (generate_param_combinations model_name) \<longleftrightarrow>
           map fst c = map fst param_grid \<and>
           list_all2 (\<lambda>v vs. v \<in> set vs \<and> (v = PNone \<longrightarrow> length vs = 1))
             (map snd c) (map snd param_grid)))
   \<and> (\<forall>model_name. map_of param_grids model_name = Some [] \<longrightarrow>
        generate_param_combinations model_name = [[]])
   \<and> (\<forall>model_name \<in> set (map fst param_grids). distinct (generate_param_combinations model_name))
   \<and> length (generate_param_combinations ''Exponential Smoothing'') = 12
   \<and> generate_param_combinations ''Naive'' = [[]]
   \<and> generate_param_combinations ''Moving Average'' =
       [[(''window'', PInt 3)], [(''window'', PInt 5)], [(''window'', PInt 7)],
        [(''window'', PInt 14)], [(''window'', PInt 30)]]"
proof (intro conjI allI impI ballI)
  fix model_name param_grid c
  assume "map_of param_grids model_name = Some param_grid \<and> param_grid \<noteq> []"
  then show "c \<in> set (generate_param_combinations model_name) \<longleftrightarrow>
      map fst c = map fst param_grid \<and>
      list_all2 (\<lambda>v vs. v \<in> set vs \<and> (v = PNone \<longrightarrow> length vs = 1))
        (map snd c) (map snd param_grid)"
    using generate_param_combinations_member by blast
next
  fix model_name
  assume "map_of param_grids model_name = Some []"
  then show "generate_param_combinations model_name = [[]]"
    by (simp add: generate_param_combinations_def)
next
  fix model_name
  assume "model_name \<in> set (map fst param_grids)"
  then have "model_name = ''Moving Average'' \<or> model_name = ''Exponential Smoothing'' \<or>
      model_name = ''Naive'' \<or> model_name = ''Seasonal Naive''"
    by (simp add: param_grids_def)
  moreover have "distinct (generate_param_combinations ''Moving Average'')"
    by (simp add: generate_param_combinations_Moving_Average)
  moreover have "distinct (generate_param_combinations ''Exponential Smoothing'')"
    by (simp add: generate_param_combinations_Exponential_Smoothing)
  moreover have "distinct (generate_param_combinations ''Naive'')"
    by (simp add: generate_param_combinations_Naive)
  moreover have "distinct (generate_param_combinations ''Seasonal Naive'')"
    by (simp add: generate_param_combinations_def param_grids_def processed_def)
  ultimately show "distinct (generate_param_combinations model_name)"
    by blast
next
  show "length (generate_param_combinations ''Exponential Smoothing'') = 12"
    by (simp add: generate_param_combinations_Exponential_Smoothing)
next
  show "generate_param_combinations ''Naive'' = [[]]"
    by (rule generate_param_combinations_Naive)
next
  show "generate_param_combinations ''Moving Average'' =
       [[(''window'', PInt 3)], [(''window'', PInt 5)], [(''window'', PInt 7)],
        [(''window'', PInt 14)], [(''window'', PInt 30)]]"
    by (rule generate_param_combinations_Moving_Average)
qed

text \<open>
  The family \<open>Exponential Smoothing\<close>: an additive trend with a multiplicative season of
  period 12 is one of its combinations.
\<close>

theorem generate_param_combinations_product_witness:
  "map_of param_grids ''Exponential Smoothing'' =
     Some [(''trend'', [PStr ''add'', PStr ''mul'', PNone]),
           (''seasonal'', [PNone, PStr ''add'', PStr ''mul'']),
           (''seasonal_periods'', [PNone, PInt 7, PInt 12, PInt 30])]
   \<and> [(''trend'', [PStr ''add'', PStr ''mul'', PNone]),
       (''seasonal'', [PNone, PStr ''add'', PStr ''mul'']),
       (''seasonal_periods'', [PNone, PInt 7, PInt 12, PInt 30])] \<noteq> []
   \<and> ''Exponential Smoothing'' \<in> set (map fst param_grids)
   \<and> [(''trend'', PStr ''add''), (''seasonal'', PStr ''mul''), (''seasonal_periods'', PInt 12)]
       \<in> set (generate_param_combinations ''Exponential Smoothing'')
   \<and> distinct (generate_param_combinations ''Exponential Smoothing'')"
proof -
  let ?g = "[(''trend'', [PStr ''add'', PStr ''mul'', PNone]),
             (''seasonal'', [PNone, PStr ''add'', PStr ''mul'']),
             (''seasonal_periods'', [PNone, PInt 7, PInt 12, PInt 30])]"
  let ?c = "[(''trend'', PStr ''add''), (''seasonal'', PStr ''mul''), (''seasonal_periods'', PInt 12)]"
  have g: "map_of param_grids ''Exponential Smoothing'' = Some ?g"
    by (simp add: param_grids_def)
  have ne: "?g \<noteq> []" by simp
  have dom: "''Exponential Smoothing'' \<in> set (map fst param_grids)"
    by (simp add: param_grids_def)
  have shape: "map fst ?c = map fst ?g \<and>
      list_all2 (\<lambda>v vs. v \<in> set vs \<and> (v = PNone \<longrightarrow> length vs = 1)) (map snd ?c) (map snd ?g)"
    by simp
  have mem: "?c \<in> set (generate_param_combinations ''Exponential Smoothing'')"
    using generate_param_combinations_product g ne shape by blast
  have dist: "distinct (generate_param_combinations ''Exponential Smoothing'')"
    using generate_param_combinations_product dom by blast
  show ?thesis using g ne dom mem dist by (intro conjI)
qed

section \<open>Properties of the forecasting models\<close>

lemma length_date_range: "length (date_range start n) = n"
  by (simp add: date_range_def)

lemma date_range_daily_index_after:
  "date_range (fst (last train) + day) steps = daily_index_after train steps"
  by (simp add: date_range_def daily_index_after_def algebra_simps)

lemma sorted_daily_index_after: "sorted_wrt (<) (daily_index_after train steps)"
  by (simp add: daily_index_after_def sorted_wrt_iff_nth_less day_def)

lemma index_last_nonempty: "d \<noteq> [] \<Longrightarrow> index_last d = Inr (fst (last d))"
  by (cases d) (simp_all add: index_last_def)

lemma Series_date_range:
  assumes "length vs = steps"
  shows "Series vs (date_range start steps) = Inr (zip (date_range start steps) vs)"
  using assms by (simp add: Series_def length_date_range)

lemma Series_daily_forecast:
  assumes "Series vs (date_range (fst (last train) + day) steps) = Inr s"
  shows "daily_forecast train steps s"
proof -
  have len: "length vs = steps"
    using assms by (auto simp: Series_def length_date_range split: if_splits)
  have "Inr (zip (date_range (fst (last train) + day) steps) vs) = Inr s"
    using Series_date_range [OF len] assms by simp
  then have s: "s = zip (daily_index_after train steps) vs"
    by (simp add: date_range_daily_index_after)
  have l2: "length (daily_index_after train steps) = length vs"
    using len by (simp add: daily_index_after_def)
  have "map fst s = daily_index_after train steps"
    unfolding s using l2 by simp
  moreover have "length s = steps"
    unfolding s using l2 len by simp
  ultimately show ?thesis
    by (simp add: daily_forecast_def sorted_daily_index_after)
qed

lemma iloc_at_last: "d \<noteq> [] \<Longrightarrow> iloc_at d (- 1) = Inr (last d)"
proof -
  assume ne: "d \<noteq> []"
  then obtain x xs where d: "d = x # xs" by (cases d) auto
  have "(x # xs) ! length xs = last (x # xs)"
    by (simp add: last_conv_nth)
  then show ?thesis
    unfolding d by (simp add: iloc_at_def)
qed

lemma iloc_at_empty: "iloc_at [] i = Inl IndexError"
  by (simp add: iloc_at_def)

lemma iloc_from_empty: "iloc_from i [] = []"
  by (simp add: iloc_from_def)

text \<open>
  C3 (as stated): \<open>fit\<close> on an empty series raises, for every model variant. The fit of
  the Seasonal Naive model and of the Moving Average model only store the series: on the
  empty series both return normally and leave the model fitted.
\<close>

theorem fit_empty_series_succeeds:
  "fit example_library (new_model (SeasonalNaiveModel (PInt 7))) []
     = ((new_model (SeasonalNaiveModel (PInt 7)))\<lparr>data := Some [], fitted := True\<rparr>, None)
   \<and> snd (fit example_library (new_model (MovingAverageModel (PInt 7))) []) = None
   \<and> fitted (fst (fit example_library (new_model (MovingAverageModel (PInt 7))) []))"
  by (simp add: fit_def SeasonalNaiveModel_fit_def MovingAverageModel_fit_def new_model_def
      iloc_from_empty)

text \<open>
  C3 (amended): on an empty series, \<open>fit\<close> of the Naive model raises (an IndexError, from
  reading the last value); \<open>fit\<close> of the Seasonal Naive and of the Moving Average model does
  not raise: it stores the empty series and marks the model fitted (Moving Average with
  slope 0); \<open>fit\<close> of the Linear Regression model raises exactly when the library's
  regression raises on the empty series, and \<open>fit\<close> of the Exponential Smoothing model
  raises exactly when the library's smoothing raises on it both as configured and without
  trend and season.
\<close>

theorem fit_empty_series:
  "fit lib (self\<lparr>kind := NaiveModel\<rparr>) [] = (self\<lparr>kind := NaiveModel\<rparr>, Some IndexError)
   \<and> fit lib (self\<lparr>kind := SeasonalNaiveModel p\<rparr>) []
       = (self\<lparr>kind := SeasonalNaiveModel p, data := Some [], fitted := True\<rparr>, None)
   \<and> fit lib (self\<lparr>kind := MovingAverageModel w\<rparr>) []
       = (self\<lparr>kind := MovingAverageModel w, data := Some [], fitted := True,
                 trend_slope := Some 0\<rparr>, None)
   \<and> snd (fit lib (self\<lparr>kind := LinearRegressionModel\<rparr>) [])
       = (case LinearRegression_fit lib [] of Inl e \<Rightarrow> Some e | Inr lr \<Rightarrow> None)
   \<and> snd (fit lib (self\<lparr>kind := ExponentialSmoothingModel t s sp\<rparr>) [])
       = (case ExponentialSmoothing_fit lib [] t s sp of
            Inr fm \<Rightarrow> None
          | Inl e \<Rightarrow> (case ExponentialSmoothing_fit lib [] PNone PNone PNone of
                        Inr fm \<Rightarrow> None
                      | Inl e' \<Rightarrow> Some e'))"
proof (intro conjI)
  show "fit lib (self\<lparr>kind := NaiveModel\<rparr>) [] = (self\<lparr>kind := NaiveModel\<rparr>, Some IndexError)"
    by (simp add: fit_def NaiveModel_fit_def iloc_at_empty)
  show "fit lib (self\<lparr>kind := SeasonalNaiveModel p\<rparr>) []
       = (self\<lparr>kind := SeasonalNaiveModel p, data := Some [], fitted := True\<rparr>, None)"
    by (simp add: fit_def SeasonalNaiveModel_fit_def)
  show "fit lib (self\<lparr>kind := MovingAverageModel w\<rparr>) []
       = (self\<lparr>kind := MovingAverageModel w, data := Some [], fitted := True,
                 trend_slope := Some 0\<rparr>, None)"
    by (simp add: fit_def MovingAverageModel_fit_def iloc_from_empty)
  show "snd (fit lib (self\<lparr>kind := LinearRegressionModel\<rparr>) [])
       = (case LinearRegression_fit lib [] of Inl e \<Rightarrow> Some e | Inr lr \<Rightarrow> None)"
    by (simp add: fit_def LinearRegressionModel_fit_def split: sum.splits)
  show "snd (fit lib (self\<lparr>kind := ExponentialSmoothingModel t s sp\<rparr>) [])
       = (case ExponentialSmoothing_fit lib [] t s sp of
            Inr fm \<Rightarrow> None
          | Inl e \<Rightarrow> (case ExponentialSmoothing_fit lib [] PNone PNone PNone of
                        Inr fm \<Rightarrow> None
                      | Inl e' \<Rightarrow> Some e'))"
    by (simp add: fit_def ExponentialSmoothingModel_fit_def split: sum.splits)
qed

text \<open>
  With a library that rejects the empty series, Naive, Linear Regression and Exponential
  Smoothing raise; Seasonal Naive and Moving Average do not.
\<close>

theorem fit_empty_series_witness:
  "snd (fit example_library (new_model NaiveModel) []) = Some IndexError
   \<and> snd (fit example_library (new_model (SeasonalNaiveModel (PInt 7))) []) = None
   \<and> snd (fit example_library (new_model (MovingAverageModel (PInt 7))) []) = None
   \<and> snd (fit example_library (new_model LinearRegressionModel) [])
       = Some (LibraryError ''Found array with 0 sample(s)'')
   \<and> snd (fit example_library (new_model (ExponentialSmoothingModel (PStr ''add'') PNone PNone)) [])
       = Some (LibraryError ''zero-size array'')"
proof -
  have n: "new_model NaiveModel = (new_model NaiveModel)\<lparr>kind := NaiveModel\<rparr>"
    and sn: "new_model (SeasonalNaiveModel (PInt 7))
             = (new_model NaiveModel)\<lparr>kind := SeasonalNaiveModel (PInt 7)\<rparr>"
    and ma: "new_model (MovingAverageModel (PInt 7))
             = (new_model NaiveModel)\<lparr>kind := MovingAverageModel (PInt 7)\<rparr>"
    and lr: "new_model LinearRegressionModel
             = (new_model NaiveModel)\<lparr>kind := LinearRegressionModel\<rparr>"
    and es: "new_model (ExponentialSmoothingModel (PStr ''add'') PNone PNone)
             = (new_model NaiveModel)\<lparr>kind := ExponentialSmoothingModel (PStr ''add'') PNone PNone\<rparr>"
    by (simp_all add: new_model_def)
  have lib1: "LinearRegression_fit example_library []
      = Inl (LibraryError ''Found array with 0 sample(s)'')"
    by (simp add: example_library_def)
  have lib2: "\<And>t s sp. ExponentialSmoothing_fit example_library [] t s sp
      = Inl (LibraryError ''zero-size array'')"
    by (simp add: example_library_def)
  show ?thesis
    using fit_empty_series [of example_library "new_model NaiveModel" "PInt 7" "PInt 7"
        "PStr ''add''" PNone PNone]
    unfolding n [symmetric] sn [symmetric] ma [symmetric] lr [symmetric] es [symmetric]
    by (simp add: lib1 lib2)
qed

subsection \<open>Shape of a forecast\<close>

lemma index_last_Inr: "index_last d = Inr t \<Longrightarrow> t = fst (last d)"
  by (cases d) (simp_all add: index_last_def)

lemma forecast_values_loop_Some:
  "forecast_values_loop avg (Some sl) is = Inr (map (\<lambda>i. val_add avg ((real i + 1) * sl)) is)"
  by (induction "is") simp_all

lemma NaiveModel_fit_nonempty:
  assumes "train \<noteq> []"
  shows "fit lib (self\<lparr>kind := NaiveModel\<rparr>) train
         = (self\<lparr>kind := NaiveModel, last_value := Some (snd (last train)),
                   data := Some train, fitted := True\<rparr>, None)"
  using assms by (simp add: fit_def NaiveModel_fit_def iloc_at_last)

lemma NaiveModel_predict_fitted:
  assumes "train \<noteq> []" and "kind m = NaiveModel" and "fitted m" and "data m = Some train"
    and "last_value m = Some v"
  shows "predict m steps = Inr (zip (date_range (fst (last train) + day) steps) (replicate steps v))"
  using assms
  by (simp add: predict_def NaiveModel_predict_def index_last_nonempty Series_date_range)

lemma MovingAverageModel_fit_ok:
  assumes "fit lib (self\<lparr>kind := MovingAverageModel w\<rparr>) train = (m, None)"
  shows "kind m = MovingAverageModel w \<and> fitted m \<and> data m = Some train \<and> trend_slope m \<noteq> None"
  using assms
  by (auto simp: fit_def MovingAverageModel_fit_def Let_def split: if_splits sum.splits)

lemma MovingAverageModel_predict_fitted:
  assumes "train \<noteq> []" and "kind m = MovingAverageModel (PInt w)" and "fitted m"
    and "data m = Some train" and "trend_slope m = Some sl"
  shows "predict m steps =
         Inr (zip (date_range (fst (last train) + day) steps)
                  (map (\<lambda>i. val_add (np_mean (map snd (iloc_from (- w) train))) ((real i + 1) * sl))
                       [0..<steps]))"
  using assms
  by (simp add: predict_def MovingAverageModel_predict_def forecast_values_loop_Some
      index_last_nonempty Series_date_range)

lemma seasonal_value_lookback:
  assumes "0 < p" and "p \<le> length d"
  shows "seasonal_value (PInt (int p)) d i = Inr (snd (d ! (length d - p + i mod p)))"
proof -
  have m: "int i mod int p = int (i mod p)"
    by (simp add: zmod_int)
  have lt: "i mod p < p" using assms(1) by simp
  have neg: "- int p + int (i mod p) < 0" using lt by simp
  have low: "- int (length d) \<le> - int p + int (i mod p)" using assms(2) by simp
  have pos: "nat (int (length d) + (- int p + int (i mod p))) = length d - p + i mod p"
    using assms(2) by simp
  have "iloc_at d (- int p + int (i mod p)) = Inr (d ! (length d - p + i mod p))"
    using neg low pos by (simp add: iloc_at_def)
  then show ?thesis
    using assms(1) by (simp add: seasonal_value_def m)
qed

lemma seasonal_loop_lookback:
  assumes "0 < p" and "p \<le> length d"
  shows "seasonal_loop (PInt (int p)) d is
         = Inr (map (\<lambda>i. snd (d ! (length d - p + i mod p))) is)"
  by (induction "is") (simp_all add: seasonal_value_lookback [OF assms])

lemma SeasonalNaiveModel_fit_eq:
  "fit lib (self\<lparr>kind := SeasonalNaiveModel sp\<rparr>) train
     = (self\<lparr>kind := SeasonalNaiveModel sp, data := Some train, fitted := True\<rparr>, None)"
  by (simp add: fit_def SeasonalNaiveModel_fit_def)

lemma SeasonalNaiveModel_predict_fitted:
  assumes "0 < p" and "p \<le> length train" and "kind m = SeasonalNaiveModel (PInt (int p))"
    and "fitted m" and "data m = Some train"
  shows "predict m steps =
         Inr (zip (date_range (fst (last train) + day) steps)
                  (map (\<lambda>i. snd (train ! (length train - p + i mod p))) [0..<steps]))"
proof -
  have ne: "train \<noteq> []" using assms(1,2) by auto
  show ?thesis
    using assms(3-5)
    by (simp add: predict_def SeasonalNaiveModel_predict_def index_last_nonempty [OF ne]
        seasonal_loop_lookback [OF assms(1,2)] Series_date_range)
qed

lemma zip_date_range_daily_forecast:
  assumes "length vs = steps"
  shows "daily_forecast train steps (zip (date_range (fst (last train) + day) steps) vs)"
  using Series_daily_forecast [of vs train steps] Series_date_range [OF assms] by simp

text \<open>
  Every \<open>predict\<close> that builds its series with \<open>pd.Series(values, index=forecast_dates)\<close>
  returns, when it returns, a daily forecast after the stored series.
\<close>

lemma predict_daily_forecast:
  assumes "predict m steps = Inr s" and "data m = Some train"
    and "\<forall>t se sp. kind m \<noteq> ExponentialSmoothingModel t se sp"
  shows "daily_forecast train steps s"
proof (cases "kind m")
  case (MovingAverageModel w)
  then show ?thesis
    using assms(1,2)
    by (auto simp: predict_def MovingAverageModel_predict_def Let_def
        split: if_splits pval.splits sum.splits
        dest!: index_last_Inr intro: Series_daily_forecast)
next
  case (ExponentialSmoothingModel t se sp)
  then show ?thesis using assms(3) by simp
next
  case NaiveModel
  then show ?thesis
    using assms(1,2)
    by (auto simp: predict_def NaiveModel_predict_def
        split: if_splits option.splits sum.splits
        dest!: index_last_Inr intro: Series_daily_forecast)
next
  case (SeasonalNaiveModel p)
  then show ?thesis
    using assms(1,2)
    by (auto simp: predict_def SeasonalNaiveModel_predict_def
        split: if_splits sum.splits
        dest!: index_last_Inr intro: Series_daily_forecast)
next
  case LinearRegressionModel
  then show ?thesis
    using assms(1,2)
    by (auto simp: predict_def LinearRegressionModel_predict_def Let_def
        split: if_splits option.splits sum.splits
        dest!: index_last_Inr intro: Series_daily_forecast)
qed

lemma LinearRegressionModel_fit_ok:
  assumes "fit lib (self\<lparr>kind := LinearRegressionModel\<rparr>) train = (m, None)"
  shows "kind m = LinearRegressionModel \<and> fitted m \<and> data m = Some train"
  using assms
  by (auto simp: fit_def LinearRegressionModel_fit_def Let_def split: sum.splits)

lemma ExponentialSmoothingModel_fit_ok:
  assumes "fit lib (self\<lparr>kind := ExponentialSmoothingModel t se sp\<rparr>) train = (m, None)"
  shows "kind m = ExponentialSmoothingModel t se sp \<and> fitted m \<and> fitted_model m \<noteq> None"
  using assms
  by (auto simp: fit_def ExponentialSmoothingModel_fit_def Let_def split: sum.splits)

lemma LinearRegressionModel_fit_exact:
  assumes "fit lib (self\<lparr>kind := LinearRegressionModel\<rparr>) train = (m, None)"
  shows "\<exists>lr. LinearRegression_fit lib (map snd train) = Inr lr \<and>
              m = self\<lparr>kind := LinearRegressionModel, data := Some train,
                        lr_model := Some lr, fitted := True\<rparr>"
  using assms
  by (auto simp: fit_def LinearRegressionModel_fit_def Let_def split: sum.splits)

lemma LinearRegressionModel_predict_fitted:
  assumes "train \<noteq> []" and "kind m = LinearRegressionModel" and "fitted m"
    and "data m = Some train" and "lr_model m = Some lr"
  shows "predict m steps =
         (case snd lr (map (\<lambda>i. int (length train) + int i) [0..<steps]) of
            Inl e \<Rightarrow> Inl e
          | Inr ps \<Rightarrow> Series ps (date_range (fst (last train) + day) steps))"
  using assms
  by (simp add: predict_def LinearRegressionModel_predict_def index_last_nonempty
      split: sum.splits)

text \<open>
  C4 (as stated): after a successful fit on a non-empty series, \<open>predict(steps)\<close>
  returns \<open>steps\<close> values, for every model variant. The Seasonal Naive model with the
  default period 7, fitted on a series of one observation, raises an IndexError when asked
  for one step: the lookback position lies before the start of the series.
\<close>

theorem SeasonalNaiveModel_predict_short_series:
  "fit example_library (new_model (SeasonalNaiveModel (PInt 7))) [(0, Some 1)]
     = ((new_model (SeasonalNaiveModel (PInt 7)))\<lparr>data := Some [(0, Some 1)], fitted := True\<rparr>, None)
   \<and> predict (fst (fit example_library (new_model (SeasonalNaiveModel (PInt 7))) [(0, Some 1)])) 1
       = Inl IndexError"
  by (simp add: fit_def SeasonalNaiveModel_fit_def new_model_def predict_def
      SeasonalNaiveModel_predict_def index_last_def seasonal_value_def iloc_at_def)

text \<open>
  C4 (amended): let \<open>train\<close> be a non-empty training series. After a successful \<open>fit\<close> on
  \<open>train\<close>, \<open>predict(steps)\<close> returns a series of exactly \<open>steps\<close> values whose index consists
  of strictly increasing, contiguous daily timestamps starting one day after the last
  timestamp of \<open>train\<close>, for the Naive model, for the Moving Average model with an integer
  window, and for the Seasonal Naive model with an integer period \<open>p\<close> such that
  \<open>1 \<le> p \<le> len(train)\<close>. For the Linear Regression model, \<open>predict(steps)\<close> hands the
  time indices \<open>len(train), ..., len(train) + steps - 1\<close> to the library's \<open>predict\<close>: when
  the library returns one value per index, \<open>predict\<close> returns exactly those values under
  that daily index; when the library raises, so does \<open>predict\<close>; and a series it returns
  always has \<open>steps\<close> values under that daily index. The Exponential Smoothing model
  returns what the library's \<open>forecast\<close> returns.
\<close>

theorem predict_daily_forecast_after_fit:
  assumes "train \<noteq> []"
  shows "(\<exists>m s. fit lib (self\<lparr>kind := NaiveModel\<rparr>) train = (m, None) \<and>
            predict m steps = Inr s \<and> daily_forecast train steps s)
       \<and> (\<forall>w m. fit lib (self\<lparr>kind := MovingAverageModel (PInt w)\<rparr>) train = (m, None) \<longrightarrow>
            (\<exists>s. predict m steps = Inr s \<and> daily_forecast train steps s))
       \<and> (\<forall>p. 0 < p \<and> p \<le> int (length train) \<longrightarrow>
            (\<exists>m s. fit lib (self\<lparr>kind := SeasonalNaiveModel (PInt p)\<rparr>) train = (m, None) \<and>
               predict m steps = Inr s \<and> daily_forecast train steps s))
       \<and> (\<forall>m. fit lib (self\<lparr>kind := LinearRegressionModel\<rparr>) train = (m, None) \<longrightarrow>
            (\<exists>lr. LinearRegression_fit lib (map snd train) = Inr lr \<and>
               predict m steps =
                 (case snd lr (map (\<lambda>i. int (length train) + int i) [0..<steps]) of
                    Inl e \<Rightarrow> Inl e
                  | Inr ps \<Rightarrow> Series ps (date_range (fst (last train) + day) steps)) \<and>
               (\<forall>ps. snd lr (map (\<lambda>i. int (length train) + int i) [0..<steps]) = Inr ps \<and>
                     length ps = steps \<longrightarrow>
                  (\<exists>s. predict m steps = Inr s \<and> daily_forecast train steps s \<and>
                       map snd s = ps)) \<and>
               (\<forall>e. snd lr (map (\<lambda>i. int (length train) + int i) [0..<steps]) = Inl e \<longrightarrow>
                  predict m steps = Inl e) \<and>
               (\<forall>s. predict m steps = Inr s \<longrightarrow> daily_forecast train steps s)))
       \<and> (\<forall>t se sp m. fit lib (self\<lparr>kind := ExponentialSmoothingModel t se sp\<rparr>) train = (m, None) \<longrightarrow>
            (\<exists>forecast. fitted_model m = Some forecast \<and> predict m steps = forecast steps))"
proof (intro conjI allI impI)
  let ?m = "self\<lparr>kind := NaiveModel, last_value := Some (snd (last train)),
                  data := Some train, fitted := True\<rparr>"
  have "predict ?m steps
        = Inr (zip (date_range (fst (last train) + day) steps) (replicate steps (snd (last train))))"
    by (rule NaiveModel_predict_fitted [OF assms]) simp_all
  moreover have "daily_forecast train steps
        (zip (date_range (fst (last train) + day) steps) (replicate steps (snd (last train))))"
    by (rule zip_date_range_daily_forecast) simp
  ultimately show "\<exists>m s. fit lib (self\<lparr>kind := NaiveModel\<rparr>) train = (m, None) \<and>
      predict m steps = Inr s \<and> daily_forecast train steps s"
    using NaiveModel_fit_nonempty [OF assms] by blast
next
  fix w m
  assume f: "fit lib (self\<lparr>kind := MovingAverageModel (PInt w)\<rparr>) train = (m, None)"
  from MovingAverageModel_fit_ok [OF f] obtain sl where
    m: "kind m = MovingAverageModel (PInt w)" "fitted m" "data m = Some train"
       "trend_slope m = Some sl"
    by auto
  have "predict m steps =
      Inr (zip (date_range (fst (last train) + day) steps)
            (map (\<lambda>i. val_add (np_mean (map snd (iloc_from (- w) train))) ((real i + 1) * sl))
                 [0..<steps]))"
    by (rule MovingAverageModel_predict_fitted [OF assms m])
  moreover have "daily_forecast train steps
      (zip (date_range (fst (last train) + day) steps)
            (map (\<lambda>i. val_add (np_mean (map snd (iloc_from (- w) train))) ((real i + 1) * sl))
                 [0..<steps]))"
    by (rule zip_date_range_daily_forecast) simp
  ultimately show "\<exists>s. predict m steps = Inr s \<and> daily_forecast train steps s"
    by blast
next
  fix p :: int
  assume p: "0 < p \<and> p \<le> int (length train)"
  define q where "q = nat p"
  have q: "0 < q" "q \<le> length train" "p = int q"
    using p by (auto simp: q_def nat_le_iff)
  let ?m = "self\<lparr>kind := SeasonalNaiveModel (PInt (int q)), data := Some train, fitted := True\<rparr>"
  have "predict ?m steps =
      Inr (zip (date_range (fst (last train) + day) steps)
            (map (\<lambda>i. snd (train ! (length train - q + i mod q))) [0..<steps]))"
    by (rule SeasonalNaiveModel_predict_fitted [OF q(1,2)]) simp_all
  moreover have "daily_forecast train steps
      (zip (date_range (fst (last train) + day) steps)
            (map (\<lambda>i. snd (train ! (length train - q + i mod q))) [0..<steps]))"
    by (rule zip_date_range_daily_forecast) simp
  ultimately show "\<exists>m s. fit lib (self\<lparr>kind := SeasonalNaiveModel (PInt p)\<rparr>) train = (m, None) \<and>
      predict m steps = Inr s \<and> daily_forecast train steps s"
    unfolding q(3) using SeasonalNaiveModel_fit_eq by blast
next
  fix m
  assume f: "fit lib (self\<lparr>kind := LinearRegressionModel\<rparr>) train = (m, None)"
  from LinearRegressionModel_fit_exact [OF f] obtain lr where
    lr: "LinearRegression_fit lib (map snd train) = Inr lr"
    and m: "m = self\<lparr>kind := LinearRegressionModel, data := Some train,
                     lr_model := Some lr, fitted := True\<rparr>"
    by blast
  let ?X = "map (\<lambda>i. int (length train) + int i) [0..<steps]"
  have ex: "predict m steps =
      (case snd lr ?X of
         Inl e \<Rightarrow> Inl e
       | Inr ps \<Rightarrow> Series ps (date_range (fst (last train) + day) steps))"
    by (rule LinearRegressionModel_predict_fitted [OF assms]) (simp_all add: m)
  have tot: "\<forall>ps. snd lr ?X = Inr ps \<and> length ps = steps \<longrightarrow>
      (\<exists>s. predict m steps = Inr s \<and> daily_forecast train steps s \<and> map snd s = ps)"
  proof (intro allI impI)
    fix ps
    assume a: "snd lr ?X = Inr ps \<and> length ps = steps"
    then have len: "length ps = steps" by (rule conjunct2)
    have p: "predict m steps = Inr (zip (date_range (fst (last train) + day) steps) ps)"
      using ex a by (simp add: Series_date_range)
    have df: "daily_forecast train steps (zip (date_range (fst (last train) + day) steps) ps)"
      by (rule zip_date_range_daily_forecast [OF len])
    have "map snd (zip (date_range (fst (last train) + day) steps) ps) = ps"
      using len by (simp add: length_date_range)
    with p df show "\<exists>s. predict m steps = Inr s \<and> daily_forecast train steps s \<and> map snd s = ps"
      by blast
  qed
  have err: "\<forall>e. snd lr ?X = Inl e \<longrightarrow> predict m steps = Inl e"
    using ex by simp
  have part: "\<forall>s. predict m steps = Inr s \<longrightarrow> daily_forecast train steps s"
  proof (intro allI impI)
    fix s
    assume "predict m steps = Inr s"
    then show "daily_forecast train steps s"
      by (rule predict_daily_forecast) (simp_all add: m)
  qed
  have "LinearRegression_fit lib (map snd train) = Inr lr \<and>
      predict m steps =
        (case snd lr ?X of
           Inl e \<Rightarrow> Inl e
         | Inr ps \<Rightarrow> Series ps (date_range (fst (last train) + day) steps)) \<and>
      (\<forall>ps. snd lr ?X = Inr ps \<and> length ps = steps \<longrightarrow>
         (\<exists>s. predict m steps = Inr s \<and> daily_forecast train steps s \<and> map snd s = ps)) \<and>
      (\<forall>e. snd lr ?X = Inl e \<longrightarrow> predict m steps = Inl e) \<and>
      (\<forall>s. predict m steps = Inr s \<longrightarrow> daily_forecast train steps s)"
    using lr ex tot err part by (intro conjI)
  then show "\<exists>lr. LinearRegression_fit lib (map snd train) = Inr lr \<and>
      predict m steps =
        (case snd lr ?X of
           Inl e \<Rightarrow> Inl e
         | Inr ps \<Rightarrow> Series ps (date_range (fst (last train) + day) steps)) \<and>
      (\<forall>ps. snd lr ?X = Inr ps \<and> length ps = steps \<longrightarrow>
         (\<exists>s. predict m steps = Inr s \<and> daily_forecast train steps s \<and> map snd s = ps)) \<and>
      (\<forall>e. snd lr ?X = Inl e \<longrightarrow> predict m steps = Inl e) \<and>
      (\<forall>s. predict m steps = Inr s \<longrightarrow> daily_forecast train steps s)"
    by (rule exI)
next
  fix t se sp m
  assume f: "fit lib (self\<lparr>kind := ExponentialSmoothingModel t se sp\<rparr>) train = (m, None)"
  from ExponentialSmoothingModel_fit_ok [OF f] obtain forecast where
    m: "kind m = ExponentialSmoothingModel t se sp" "fitted m" "fitted_model m = Some forecast"
    by auto
  then have "predict m steps = forecast steps"
    by (simp add: predict_def ExponentialSmoothingModel_predict_def)
  then show "\<exists>forecast. fitted_model m = Some forecast \<and> predict m steps = forecast steps"
    using m(3) by blast
qed

text \<open>
  Three observations at days 0, 1 and 2. The Seasonal Naive model with period 2 forecasts
  two steps, indexed by days 3 and 4; the Linear Regression model, with a library that
  fits the constant 30, forecasts the values 30, 30 under the same index.
\<close>

theorem predict_daily_forecast_after_fit_witness:
  "three_days \<noteq> []
   \<and> (0::int) < 2 \<and> (2::int) \<le> int (length three_days)
   \<and> (\<exists>m s. fit example_library (new_model (SeasonalNaiveModel (PInt 2))) three_days = (m, None)
          \<and> predict m 2 = Inr s
          \<and> daily_forecast three_days 2 s
          \<and> map fst s = [3 * day, 4 * day])
   \<and> (\<exists>m s. fit example_library (new_model LinearRegressionModel) three_days = (m, None)
          \<and> predict m 2 = Inr s
          \<and> daily_forecast three_days 2 s
          \<and> map snd s = [Some 30, Some 30])"
proof -
  have ne: "three_days \<noteq> []" by (simp add: three_days_def)
  have p: "(0::int) < 2 \<and> (2::int) \<le> int (length three_days)" by (simp add: three_days_def)
  have k: "new_model (SeasonalNaiveModel (PInt 2))
           = (new_model NaiveModel)\<lparr>kind := SeasonalNaiveModel (PInt 2)\<rparr>"
    by (simp add: new_model_def)
  have kl: "new_model LinearRegressionModel
           = (new_model NaiveModel)\<lparr>kind := LinearRegressionModel\<rparr>"
    by (simp add: new_model_def)
  note inst = predict_daily_forecast_after_fit [OF ne, of example_library "new_model NaiveModel" 2]
  have "\<forall>p. 0 < p \<and> p \<le> int (length three_days) \<longrightarrow>
      (\<exists>m s. fit example_library ((new_model NaiveModel)\<lparr>kind := SeasonalNaiveModel (PInt p)\<rparr>)
                three_days = (m, None) \<and> predict m 2 = Inr s \<and> daily_forecast three_days 2 s)"
    using inst by blast
  then obtain m s where
    ms: "fit example_library (new_model (SeasonalNaiveModel (PInt 2))) three_days = (m, None)"
        "predict m 2 = Inr s" "daily_forecast three_days 2 s"
    using p unfolding k by blast
  have idx: "map fst s = [3 * day, 4 * day]"
    using ms(3)
    by (simp add: daily_forecast_def daily_index_after_def three_days_def upt_rec numeral_2_eq_2)
  have sn: "\<exists>m s. fit example_library (new_model (SeasonalNaiveModel (PInt 2))) three_days = (m, None)
          \<and> predict m 2 = Inr s
          \<and> daily_forecast three_days 2 s
          \<and> map fst s = [3 * day, 4 * day]"
    using ms idx by (intro exI [of _ m] exI [of _ s]) simp
  have lf: "LinearRegression_fit example_library (map snd three_days)
            = Inr (0, \<lambda>xs. Inr (map (\<lambda>x. Some 30) xs))"
    by (simp add: example_library_def three_days_def)
  obtain ml where
    fl: "fit example_library ((new_model NaiveModel)\<lparr>kind := LinearRegressionModel\<rparr>) three_days
         = (ml, None)"
    by (simp add: fit_def LinearRegressionModel_fit_def lf)
  have "\<forall>m. fit example_library ((new_model NaiveModel)\<lparr>kind := LinearRegressionModel\<rparr>) three_days
          = (m, None) \<longrightarrow>
      (\<exists>lr. LinearRegression_fit example_library (map snd three_days) = Inr lr \<and>
         predict m 2 =
           (case snd lr (map (\<lambda>i. int (length three_days) + int i) [0..<2]) of
              Inl e \<Rightarrow> Inl e
            | Inr ps \<Rightarrow> Series ps (date_range (fst (last three_days) + day) 2)) \<and>
         (\<forall>ps. snd lr (map (\<lambda>i. int (length three_days) + int i) [0..<2]) = Inr ps \<and>
               length ps = 2 \<longrightarrow>
            (\<exists>s. predict m 2 = Inr s \<and> daily_forecast three_days 2 s \<and> map snd s = ps)) \<and>
         (\<forall>e. snd lr (map (\<lambda>i. int (length three_days) + int i) [0..<2]) = Inl e \<longrightarrow>
            predict m 2 = Inl e) \<and>
         (\<forall>s. predict m 2 = Inr s \<longrightarrow> daily_forecast three_days 2 s))"
    using inst by blast
  then obtain lr where
    lr: "LinearRegression_fit example_library (map snd three_days) = Inr lr"
    and tot: "\<forall>ps. snd lr (map (\<lambda>i. int (length three_days) + int i) [0..<2]) = Inr ps \<and>
               length ps = 2 \<longrightarrow>
            (\<exists>s. predict ml 2 = Inr s \<and> daily_forecast three_days 2 s \<and> map snd s = ps)"
    using fl by blast
  have lrv: "lr = (0, \<lambda>xs. Inr (map (\<lambda>x. Some 30) xs))"
    using lr lf by simp
  have two: "snd lr (map (\<lambda>i. int (length three_days) + int i) [0..<2]) = Inr [Some 30, Some 30]
        \<and> length [Some (30::real), Some 30] = 2"
    unfolding lrv by (simp add: upt_rec numeral_2_eq_2)
  from mp [OF spec [OF tot] two] obtain sl where
    sl: "predict ml 2 = Inr sl \<and> daily_forecast three_days 2 sl \<and>
         map snd sl = [Some 30, Some 30]" ..
  have "fit example_library (new_model LinearRegressionModel) three_days = (ml, None)
          \<and> predict ml 2 = Inr sl
          \<and> daily_forecast three_days 2 sl
          \<and> map snd sl = [Some 30, Some 30]"
    unfolding kl using fl sl by (intro conjI) simp_all
  then have lrw: "\<exists>m s. fit example_library (new_model LinearRegressionModel) three_days = (m, None)
          \<and> predict m 2 = Inr s
          \<and> daily_forecast three_days 2 s
          \<and> map snd s = [Some 30, Some 30]"
    by (intro exI)
  show ?thesis using ne p sn lrw by simp
qed

text \<open>
  C5: for the Seasonal Naive model fitted with period \<open>p\<close> (a positive integer) on a
  training series of length at least \<open>p\<close>, \<open>predict(steps)\<close> returns a series whose value at
  0-indexed step \<open>i\<close> is the training value at position \<open>len(train) - p + (i mod p)\<close>, for
  every step \<open>i < steps\<close>.
\<close>

theorem SeasonalNaiveModel_cyclic_lookback:
  assumes "0 < p" and "p \<le> length train" and "i < steps"
  shows "\<exists>m s. fit lib (self\<lparr>kind := SeasonalNaiveModel (PInt (int p))\<rparr>) train = (m, None)
           \<and> predict m steps = Inr s
           \<and> length s = steps
           \<and> snd (s ! i) = snd (train ! (length train - p + i mod p))"
proof -
  let ?m = "self\<lparr>kind := SeasonalNaiveModel (PInt (int p)), data := Some train, fitted := True\<rparr>"
  let ?s = "zip (date_range (fst (last train) + day) steps)
              (map (\<lambda>i. snd (train ! (length train - p + i mod p))) [0..<steps])"
  have f: "fit lib (self\<lparr>kind := SeasonalNaiveModel (PInt (int p))\<rparr>) train = (?m, None)"
    by (rule SeasonalNaiveModel_fit_eq)
  have pr: "predict ?m steps = Inr ?s"
    by (rule SeasonalNaiveModel_predict_fitted [OF assms(1,2)]) simp_all
  have len: "length ?s = steps"
    by (simp add: length_date_range)
  have "snd (?s ! i) = snd (train ! (length train - p + i mod p))"
    using assms(3) by (simp add: length_date_range)
  with f pr len show ?thesis by blast
qed

text \<open>
  Period 2 on the observations 10, 20, 30: step 3 of five reads position
  \<open>3 - 2 + (3 mod 2) = 2\<close>, the value 30.
\<close>

theorem SeasonalNaiveModel_cyclic_lookback_witness:
  "(0::nat) < 2 \<and> 2 \<le> length three_days \<and> (3::nat) < 5
   \<and> (\<exists>m s. fit example_library (new_model (SeasonalNaiveModel (PInt 2))) three_days = (m, None)
          \<and> predict m 5 = Inr s \<and> length s = 5 \<and> snd (s ! 3) = Some 30)"
proof -
  have h1: "(0::nat) < 2" by simp
  have h2: "2 \<le> length three_days" by (simp add: three_days_def)
  have h3: "(3::nat) < 5" by simp
  have k: "new_model (SeasonalNaiveModel (PInt 2))
           = (new_model NaiveModel)\<lparr>kind := SeasonalNaiveModel (PInt (int 2))\<rparr>"
    by (simp add: new_model_def)
  have "(3::nat) mod 2 = 1" by simp
  then have pos: "snd (three_days ! (length three_days - 2 + 3 mod 2)) = Some 30"
    by (simp add: three_days_def)
  show ?thesis
    using SeasonalNaiveModel_cyclic_lookback [OF h1 h2 h3, of example_library "new_model NaiveModel"]
    unfolding k [symmetric] pos
    using h1 h2 h3 by simp
qed

section \<open>Properties of the metrics\<close>

lemma align_inner_member:
  "(t, x, y) \<in> set (align_inner a p) \<longleftrightarrow> (t, x) \<in> set a \<and> map_of p t = Some y"
  by (auto simp: align_inner_def split: option.splits)

lemma kept_rows_member:
  "(t, x, y) \<in> set (filter not_nan (align_inner a p)) \<longleftrightarrow>
     (t, x) \<in> set a \<and> map_of p t = Some y \<and> x \<noteq> None \<and> y \<noteq> None"
  by (auto simp: align_inner_member not_nan_def)

lemma replace_zero_no_zero: "0 \<notin> set (replace_zero ys)"
  by (auto simp: replace_zero_def)

lemma replace_zero_unchanged: "0 \<notin> set ys \<Longrightarrow> replace_zero ys = ys"
  by (induction ys) (simp_all add: replace_zero_def)

lemma replaced_actual:
  "(if 0 \<in> set ys then replace_zero ys else ys) = replace_zero ys"
  by (simp add: replace_zero_unchanged)

lemma mape_replace_zero:
  "mean_absolute_percentage_error (replace_zero ys) ps =
     Inr (sum_list (map (\<lambda>(y, p). \<bar>(if y = 0 then 1 / 10 ^ 10 else y) - p\<bar>
                                   / \<bar>if y = 0 then 1 / 10 ^ 10 else y\<bar>) (zip ys ps))
          / real (length ys))"
proof -
  have z: "zip (replace_zero ys) ps
           = map (\<lambda>(y, p). (if y = 0 then 1 / 10 ^ 10 else y, p)) (zip ys ps)"
    by (simp add: replace_zero_def zip_map1)
  have "map (\<lambda>(y, p). \<bar>y - p\<bar> / \<bar>y\<bar>) (zip (replace_zero ys) ps)
        = map (\<lambda>(y, p). \<bar>(if y = 0 then 1 / 10 ^ 10 else y) - p\<bar>
                          / \<bar>if y = 0 then 1 / 10 ^ 10 else y\<bar>) (zip ys ps)"
    unfolding z by (simp add: case_prod_beta)
  moreover have "length (replace_zero ys) = length ys"
    by (simp add: replace_zero_def)
  ultimately show ?thesis
    using replace_zero_no_zero [of ys]
    by (simp add: mean_absolute_percentage_error_def)
qed

lemma calculate_metrics_unscorable:
  assumes "filter not_nan (align_inner act predicted) = []"
  shows "calculate_metrics act predicted = Inr (Infinity, Infinity)"
  using assms by (simp add: calculate_metrics_def)

lemma calculate_metrics_scored:
  assumes "filter not_nan (align_inner act predicted) \<noteq> []"
  shows "calculate_metrics act predicted =
     Inr (Num (mean_absolute_error
                 (map (\<lambda>row. the (fst (snd row))) (filter not_nan (align_inner act predicted)))
                 (map (\<lambda>row. the (snd (snd row))) (filter not_nan (align_inner act predicted)))),
          Num (sum_list (map (\<lambda>(y, p). \<bar>(if y = 0 then 1 / 10 ^ 10 else y) - p\<bar>
                                        / \<bar>if y = 0 then 1 / 10 ^ 10 else y\<bar>)
                 (zip (map (\<lambda>row. the (fst (snd row))) (filter not_nan (align_inner act predicted)))
                      (map (\<lambda>row. the (snd (snd row))) (filter not_nan (align_inner act predicted)))))
               / real (length (filter not_nan (align_inner act predicted)))))"
proof -
  let ?rows = "filter not_nan (align_inner act predicted)"
  let ?ys = "map (\<lambda>row. the (fst (snd row))) ?rows"
  let ?ps = "map (\<lambda>row. the (snd (snd row))) ?rows"
  have ne: "length ?ys \<noteq> 0" using assms by simp
  have "calculate_metrics act predicted =
        (case mean_absolute_percentage_error (replace_zero ?ys) ?ps of
           Inl e \<Rightarrow> Inl e
         | Inr mape_v \<Rightarrow> Inr (Num (mean_absolute_error ?ys ?ps), Num mape_v))"
    unfolding calculate_metrics_def Let_def replaced_actual using ne by simp
  then show ?thesis
    by (simp add: mape_replace_zero)
qed

lemma calculate_metrics_total: "\<exists>m. calculate_metrics act predicted = Inr m"
proof (cases "filter not_nan (align_inner act predicted) = []")
  case True
  then show ?thesis using calculate_metrics_unscorable by blast
next
  case False
  then show ?thesis using calculate_metrics_scored by blast
qed

text \<open>
  C7: \<open>calculate_metrics(actual, predicted)\<close> never raises. It keeps the rows whose label
  occurs in both series and whose two values are both present (not NaN); with no such row
  it returns MAE = MAPE = +infinity; otherwise MAE is the mean absolute difference of the
  kept rows, and MAPE is the mean of \<open>|a' - p| / |a'|\<close>, where \<open>a'\<close> is the actual value with
  an exact 0 replaced by 1e-10.
\<close>

theorem calculate_metrics_aligned:
  "(\<exists>m. calculate_metrics act predicted = Inr m)
   \<and> (\<forall>t x y. (t, x, y) \<in> set (filter not_nan (align_inner act predicted)) \<longleftrightarrow>
         (t, x) \<in> set act \<and> map_of predicted t = Some y \<and> x \<noteq> None \<and> y \<noteq> None)
   \<and> (filter not_nan (align_inner act predicted) = [] \<longrightarrow>
         calculate_metrics act predicted = Inr (Infinity, Infinity))
   \<and> (filter not_nan (align_inner act predicted) \<noteq> [] \<longrightarrow>
         calculate_metrics act predicted =
           Inr (Num (mean_absolute_error
                 (map (\<lambda>row. the (fst (snd row))) (filter not_nan (align_inner act predicted)))
                 (map (\<lambda>row. the (snd (snd row))) (filter not_nan (align_inner act predicted)))),
                Num (sum_list (map (\<lambda>(y, p). \<bar>(if y = 0 then 1 / 10 ^ 10 else y) - p\<bar>
                                        / \<bar>if y = 0 then 1 / 10 ^ 10 else y\<bar>)
                 (zip (map (\<lambda>row. the (fst (snd row))) (filter not_nan (align_inner act predicted)))
                      (map (\<lambda>row. the (snd (snd row))) (filter not_nan (align_inner act predicted)))))
               / real (length (filter not_nan (align_inner act predicted))))))"
proof (intro conjI allI impI)
  show "\<exists>m. calculate_metrics act predicted = Inr m"
    by (rule calculate_metrics_total)
next
  fix t x y
  show "(t, x, y) \<in> set (filter not_nan (align_inner act predicted)) \<longleftrightarrow>
         (t, x) \<in> set act \<and> map_of predicted t = Some y \<and> x \<noteq> None \<and> y \<noteq> None"
    by (rule kept_rows_member)
next
  assume "filter not_nan (align_inner act predicted) = []"
  then show "calculate_metrics act predicted = Inr (Infinity, Infinity)"
    by (rule calculate_metrics_unscorable)
next
  assume "filter not_nan (align_inner act predicted) \<noteq> []"
  then show "calculate_metrics act predicted =
           Inr (Num (mean_absolute_error
                 (map (\<lambda>row. the (fst (snd row))) (filter not_nan (align_inner act predicted)))
                 (map (\<lambda>row. the (snd (snd row))) (filter not_nan (align_inner act predicted)))),
                Num (sum_list (map (\<lambda>(y, p). \<bar>(if y = 0 then 1 / 10 ^ 10 else y) - p\<bar>
                                        / \<bar>if y = 0 then 1 / 10 ^ 10 else y\<bar>)
                 (zip (map (\<lambda>row. the (fst (snd row))) (filter not_nan (align_inner act predicted)))
                      (map (\<lambda>row. the (snd (snd row))) (filter not_nan (align_inner act predicted)))))
               / real (length (filter not_nan (align_inner act predicted)))))"
    by (rule calculate_metrics_scored)
qed

text \<open>
  An actual series with a 0, a 2 and a NaN against predictions 1, 2 and one at a label the
  actual series does not have: two rows are kept, MAE is 1/2, and MAPE is computed with
  1e-10 in place of the 0. Series with no label in common score +infinity.
\<close>

theorem calculate_metrics_aligned_witness:
  "filter not_nan (align_inner [(0, Some 0), (day, Some 2), (2 * day, None)]
                               [(0, Some 1), (day, Some 2), (3 * day, Some 5)])
     = [(0, Some 0, Some 1), (day, Some 2, Some 2)]
   \<and> calculate_metrics [(0, Some 0), (day, Some 2), (2 * day, None)]
                       [(0, Some 1), (day, Some 2), (3 * day, Some 5)]
       = Inr (Num (1 / 2), Num ((10 ^ 10 - 1) / 2))
   \<and> filter not_nan (align_inner [(0, Some 1)] [(day, Some 1)]) = []
   \<and> calculate_metrics [(0, Some 1)] [(day, Some 1)] = Inr (Infinity, Infinity)"
proof -
  let ?a = "[(0, Some 0), (day, Some 2), (2 * day, None)] :: series"
  let ?p = "[(0, Some 1), (day, Some 2), (3 * day, Some 5)] :: series"
  have rows: "filter not_nan (align_inner ?a ?p) = [(0, Some 0, Some 1), (day, Some 2, Some 2)]"
    by (simp add: align_inner_def not_nan_def day_def)
  have none: "filter not_nan (align_inner [(0, Some 1)] [(day, Some 1)]) = []"
    by (simp add: align_inner_def day_def)
  have ne: "filter not_nan (align_inner ?a ?p) \<noteq> []"
    using rows by simp
  have "calculate_metrics ?a ?p = Inr (Num (1 / 2), Num ((10 ^ 10 - 1) / 2))"
    using calculate_metrics_aligned [of ?a ?p] ne
    unfolding rows by (simp add: mean_absolute_error_def)
  moreover have "calculate_metrics [(0, Some 1)] [(day, Some 1)] = Inr (Infinity, Infinity)"
    using calculate_metrics_aligned [of "[(0, Some 1)]" "[(day, Some 1)]"] none by blast
  ultimately show ?thesis using rows none by simp
qed

section \<open>Properties of the backtester\<close>














section \<open>Properties of the Exponential Smoothing fit\<close>




section \<open>Invariant of the backtest results\<close>

lemma backtest_single_model_error_result:
  assumes "backtest_single_model lib model d ts h = Inr (r, m')" and "error r \<noteq> None"
  shows "\<exists>e. r = error_result e"
  using assms
  by (auto simp: backtest_single_model_def Let_def no_horizon_result_def
      split: pyfloat.splits if_splits prod.splits option.splits sum.splits)

lemma error_result_scores: "mae (error_result e) = Some Infinity \<and> mape (error_result e) = Some Infinity"
  by (simp add: error_result_def)

lemma backtest_single_model_error_scores:
  assumes "backtest_single_model lib model d ts h = Inr (r, m')" and "error r \<noteq> None"
  shows "mae r = Some Infinity \<and> mape r = Some Infinity"
  using backtest_single_model_error_result [OF assms] error_result_scores by auto

lemma set_update_cases:
  "(k', v') \<in> set (AList.update k v al) \<Longrightarrow> (k', v') = (k, v) \<or> (k', v') \<in> set al"
  by (induction al) (auto split: if_splits)

lemma backtest_all_models_loop_invariant:
  assumes "\<forall>(n, r) \<in> set rs. error r \<noteq> None \<longrightarrow> mae r = Some Infinity \<and> mape r = Some Infinity"
  shows "\<forall>(n, r) \<in> set (fst (backtest_all_models_loop lib models d ts h rs)).
           error r \<noteq> None \<longrightarrow> mae r = Some Infinity \<and> mape r = Some Infinity"
  using assms
proof (induction models arbitrary: rs)
  case Nil
  then show ?case by simp
next
  case (Cons model models)
  show ?case
  proof (cases "backtest_single_model lib model d ts h")
    case (Inl e)
    have "\<forall>(n, r) \<in> set (AList.update (name (kind model)) (error_result e) rs).
        error r \<noteq> None \<longrightarrow> mae r = Some Infinity \<and> mape r = Some Infinity"
      using Cons.prems error_result_scores by (auto dest!: set_update_cases)
    from Cons.IH [OF this] show ?thesis
      using Inl by (simp add: case_prod_beta)
  next
    case (Inr p)
    obtain r m' where p: "p = (r, m')" by (cases p)
    have "error r \<noteq> None \<longrightarrow> mae r = Some Infinity \<and> mape r = Some Infinity"
      using backtest_single_model_error_scores Inr p by blast
    then have "\<forall>(n, r') \<in> set (AList.update (name (kind model)) r rs).
        error r' \<noteq> None \<longrightarrow> mae r' = Some Infinity \<and> mape r' = Some Infinity"
      using Cons.prems by (auto dest!: set_update_cases)
    from Cons.IH [OF this] show ?thesis
      using Inr p by (simp add: case_prod_beta)
  qed
qed

lemma select_best_model_error_free:
  assumes "(n0, r0) \<in> set rs" and "error r0 = None" and "score_less (get_mae r0) Infinity"
  shows "\<exists>n r. select_best_model rs = Inr (n, r) \<and> error r = None \<and>
               score_less (get_mae r) Infinity"
proof -
  have ne: "rs \<noteq> []" using assms(1) by auto
  from select_best_model_cases [OF ne] show ?thesis
  proof (rule disjE)
    assume "select_best_model rs = Inr (hd rs) \<and>
      (\<forall>(k, r) \<in> set rs. error r = None \<longrightarrow> get_mae r = Infinity)"
    then have "get_mae r0 = Infinity" using assms(1,2) by auto
    then have False using assms(3) by simp
    then show ?thesis by (rule FalseE)
  next
    assume "\<exists>pre n r post. rs = pre @ (n, r) # post \<and> select_best_model rs = Inr (n, r) \<and>
      error r = None \<and> score_less (get_mae r) Infinity \<and>
      (\<forall>(k, r') \<in> set pre. error r' = None \<longrightarrow> score_less (get_mae r) (get_mae r')) \<and>
      (\<forall>(k, r') \<in> set post. error r' = None \<longrightarrow> \<not> score_less (get_mae r') (get_mae r))"
    then obtain pre n r post where
      "select_best_model rs = Inr (n, r)" "error r = None" "score_less (get_mae r) Infinity"
      by blast
    then show ?thesis by blast
  qed
qed

text \<open>
  C9: every result produced by \<open>backtest_single_model\<close>, and every entry of the mapping
  produced by \<open>backtest_all_models\<close>, satisfies: if its \<open>error\<close> field is set, then its MAE
  and MAPE are +infinity. And when a mapping has an entry without \<open>error\<close> field whose MAE
  is below +infinity (a successfully scored model), \<open>select_best_model\<close> returns an entry
  without \<open>error\<close> field: a failed model does not win against it.
\<close>

theorem backtest_error_implies_infinite_scores:
  "(\<forall>r m'. backtest_single_model lib model d ts h = Inr (r, m') \<and> error r \<noteq> None \<longrightarrow>
      mae r = Some Infinity \<and> mape r = Some Infinity)
   \<and> (\<forall>n r. (n, r) \<in> set (fst (backtest_all_models lib models d ts h)) \<and> error r \<noteq> None \<longrightarrow>
      mae r = Some Infinity \<and> mape r = Some Infinity)
   \<and> (\<forall>rs n0 r0. (n0, r0) \<in> set rs \<and> error r0 = None \<and> score_less (get_mae r0) Infinity \<longrightarrow>
      (\<exists>n r. select_best_model rs = Inr (n, r) \<and> error r = None \<and>
              score_less (get_mae r) Infinity))"
proof (intro conjI allI impI)
  fix r m'
  assume "backtest_single_model lib model d ts h = Inr (r, m') \<and> error r \<noteq> None"
  then show "mae r = Some Infinity" and "mape r = Some Infinity"
    using backtest_single_model_error_scores by blast+
next
  fix n r
  assume a: "(n, r) \<in> set (fst (backtest_all_models lib models d ts h)) \<and> error r \<noteq> None"
  have "\<forall>(n, r) \<in> set (fst (backtest_all_models_loop lib models d ts h [])).
      error r \<noteq> None \<longrightarrow> mae r = Some Infinity \<and> mape r = Some Infinity"
    by (rule backtest_all_models_loop_invariant) simp
  then show "mae r = Some Infinity" and "mape r = Some Infinity"
    using a by (auto simp: backtest_all_models_def)
next
  fix rs :: results and n0 r0
  assume "(n0, r0) \<in> set rs \<and> error r0 = None \<and> score_less (get_mae r0) Infinity"
  then show "\<exists>n r. select_best_model rs = Inr (n, r) \<and> error r = None \<and>
      score_less (get_mae r) Infinity"
    using select_best_model_error_free by blast
qed

text \<open>
  Five daily observations 1, ..., 5, \<open>train_size = 0.8\<close>, horizon 7, and the roster
  Seasonal Naive (period 7), Naive: the Seasonal Naive model fails on the four training
  rows and gets the error result with infinite scores; the Naive model is scored with
  MAE 1, and it is selected.
\<close>

lemma ramp_5:
  "ramp 5 = [(0, Some 1), (day, Some 2), (2 * day, Some 3), (3 * day, Some 4), (4 * day, Some 5)]"
  by (simp add: ramp_def upt_rec)

lemma backtest_SeasonalNaive_ramp_5:
  "backtest_single_model example_library (new_model (SeasonalNaiveModel (PInt 7))) (ramp 5)
     (Finite (4 / 5)) 7
   = Inr (error_result IndexError,
          (new_model (SeasonalNaiveModel (PInt 7)))\<lparr>data := Some (take 4 (ramp 5)), fitted := True\<rparr>)"
  unfolding ramp_5
  by (simp add: backtest_single_model_def py_int_def iloc_to_def iloc_from_def slice_bound_def
      fit_def SeasonalNaiveModel_fit_def new_model_def predict_def SeasonalNaiveModel_predict_def
      index_last_def seasonal_value_def iloc_at_def)

lemma backtest_Naive_ramp_5:
  "\<exists>m. backtest_single_model example_library (new_model NaiveModel) (ramp 5) (Finite (4 / 5)) 7
     = Inr (\<lparr>mae = Some (Num 1), mape = Some (Num (1 / 5)), predictions = Some [Some 4],
             actual = Some [Some 5], error = None\<rparr>, m)"
  unfolding ramp_5
  by (simp add: backtest_single_model_def py_int_def iloc_to_def iloc_from_def slice_bound_def
      fit_def NaiveModel_fit_def new_model_def predict_def NaiveModel_predict_def
      index_last_def iloc_at_def Series_def date_range_def calculate_metrics_def align_inner_def
      not_nan_def mean_absolute_error_def mean_absolute_percentage_error_def replace_zero_def
      day_def)

theorem backtest_error_implies_infinite_scores_witness:
  "fst (backtest_all_models example_library
          [new_model (SeasonalNaiveModel (PInt 7)), new_model NaiveModel] (ramp 5) (Finite (4 / 5)) 7)
     = [(''Seasonal Naive'', error_result IndexError),
        (''Naive'', \<lparr>mae = Some (Num 1), mape = Some (Num (1 / 5)), predictions = Some [Some 4],
                     actual = Some [Some 5], error = None\<rparr>)]
   \<and> error (error_result IndexError) \<noteq> None
   \<and> mae (error_result IndexError) = Some Infinity
   \<and> mape (error_result IndexError) = Some Infinity
   \<and> (\<exists>n r. select_best_model
               [(''Seasonal Naive'', error_result IndexError),
                (''Naive'', \<lparr>mae = Some (Num 1), mape = Some (Num (1 / 5)),
                             predictions = Some [Some 4], actual = Some [Some 5], error = None\<rparr>)]
              = Inr (n, r) \<and> error r = None \<and> score_less (get_mae r) Infinity)"
proof -
  let ?ok = "\<lparr>mae = Some (Num 1), mape = Some (Num (1 / 5)), predictions = Some [Some 4],
              actual = Some [Some 5], error = None\<rparr>"
  let ?rs = "[(''Seasonal Naive'', error_result IndexError), (''Naive'', ?ok)]"
  let ?run = "backtest_all_models example_library
      [new_model (SeasonalNaiveModel (PInt 7)), new_model NaiveModel] (ramp 5) (Finite (4 / 5)) 7"
  obtain m where nv:
    "backtest_single_model example_library (new_model NaiveModel) (ramp 5) (Finite (4 / 5)) 7
       = Inr (?ok, m)"
    using backtest_Naive_ramp_5 by blast
  have kn: "\<And>k. kind (new_model k) = k"
    by (simp add: new_model_def)
  have res: "fst ?run = ?rs"
    by (simp add: backtest_all_models_def backtest_SeasonalNaive_ramp_5 nv kn)
  have err: "error (error_result IndexError) \<noteq> None"
    by (simp add: error_result_def)
  have mem: "(''Seasonal Naive'', error_result IndexError) \<in> set (fst ?run)"
    unfolding res by simp
  note inst = backtest_error_implies_infinite_scores [of example_library "new_model NaiveModel"
      "ramp 5" "Finite (4 / 5)" 7 "[new_model (SeasonalNaiveModel (PInt 7)), new_model NaiveModel]"]
  have scores: "mae (error_result IndexError) = Some Infinity \<and>
      mape (error_result IndexError) = Some Infinity"
    using conjunct1 [OF conjunct2 [OF inst]] mem err by blast
  have good: "(''Naive'', ?ok) \<in> set ?rs \<and> error ?ok = None \<and> score_less (get_mae ?ok) Infinity"
    by (simp add: get_mae_def)
  have sel: "\<exists>n r. select_best_model ?rs = Inr (n, r) \<and> error r = None \<and>
      score_less (get_mae r) Infinity"
    using conjunct2 [OF conjunct2 [OF inst]] good by blast
  show ?thesis
    using res err conjunct1 [OF scores] conjunct2 [OF scores] sel by (intro conjI)
qed

section \<open>Properties of the grid search\<close>

lemma undeclared_family:
  assumes "model_name \<notin> set (map fst param_grids)"
  shows "model_name \<noteq> ''Moving Average'' \<and> model_name \<noteq> ''Exponential Smoothing'' \<and>
         model_name \<noteq> ''Naive'' \<and> model_name \<noteq> ''Seasonal Naive''"
  using assms by (auto simp: param_grids_def)

lemma generate_param_combinations_undeclared:
  assumes "model_name \<notin> set (map fst param_grids)"
  shows "generate_param_combinations model_name = [[]]"
proof -
  have "map_of param_grids model_name = None"
    using assms by (simp add: map_of_eq_None_iff)
  then show ?thesis by (simp add: generate_param_combinations_def)
qed

lemma create_model_with_params_undeclared:
  assumes "model_name \<notin> set (map fst param_grids)"
  shows "create_model_with_params model_name ps = Inl (ValueError ''Unknown model'')"
  using undeclared_family [OF assms] by (simp add: create_model_with_params_def)

text \<open>
  C10: for every series, library, \<open>train_size\<close>, horizon and every model-family name that
  is not among the declared grid families, \<open>generate_param_combinations\<close> yields the single
  empty combination, \<open>create_model_with_params\<close> raises a ValueError for it, and
  \<open>grid_search\<close> returns \<open>({}, +infinity)\<close> without raising.
\<close>

theorem grid_search_unknown_family:
  assumes "model_name \<notin> set (map fst param_grids)"
  shows "generate_param_combinations model_name = [[]]
       \<and> create_model_with_params model_name [] = Inl (ValueError ''Unknown model'')
       \<and> grid_search lib d model_name train_size forecast_horizon = Inr ([], Infinity)"
  by (simp add: grid_search_def generate_param_combinations_undeclared [OF assms]
      create_model_with_params_undeclared [OF assms])

text \<open>\<open>Linear Regression\<close> is a model of the roster but not a family of the grid.\<close>

theorem grid_search_unknown_family_witness:
  "''Linear Regression'' \<notin> set (map fst param_grids)
   \<and> generate_param_combinations ''Linear Regression'' = [[]]
   \<and> create_model_with_params ''Linear Regression'' [] = Inl (ValueError ''Unknown model'')
   \<and> grid_search example_library three_days ''Linear Regression'' (Finite (4 / 5)) 7
       = Inr ([], Infinity)"
proof -
  have h: "''Linear Regression'' \<notin> set (map fst param_grids)"
    by (simp add: param_grids_def)
  show ?thesis
    using h grid_search_unknown_family [OF h, of example_library three_days "Finite (4 / 5)" 7]
    by simp
qed
end
